theory Spec2Isabelle
  imports Complex_Main "HOL-Library.Signed_Division"
begin

section \<open>Values of the Go program\<close>

subsection \<open>float64\<close>

text \<open>
  A Go \<^verbatim>\<open>float64\<close> is a finite number, an infinity or NaN. Finite values are modelled
  by the real number they denote, so rounding and overflow of finite arithmetic are not
  part of the model and the two zeros are one value (a zero divisor is taken as +0, which
  is what \<^verbatim>\<open>float64(n)\<close> of an integer 0 gives). The special values follow IEEE 754:
  NaN is unequal to everything, itself included, and is never smaller or larger.
\<close>

datatype float64 = Finite real | PosInf | NegInf | NaN

fun feq :: "float64 \<Rightarrow> float64 \<Rightarrow> bool" where
  "feq (Finite x) (Finite y) = (x = y)"
| "feq PosInf PosInf = True"
| "feq NegInf NegInf = True"
| "feq _ _ = False"

definition fne :: "float64 \<Rightarrow> float64 \<Rightarrow> bool" where
  "fne a b = (\<not> feq a b)"

fun flt :: "float64 \<Rightarrow> float64 \<Rightarrow> bool" where
  "flt (Finite x) (Finite y) = (x < y)"
| "flt NegInf (Finite y) = True"
| "flt NegInf PosInf = True"
| "flt (Finite x) PosInf = True"
| "flt _ _ = False"

definition fgt :: "float64 \<Rightarrow> float64 \<Rightarrow> bool" where
  "fgt a b = flt b a"

fun fneg :: "float64 \<Rightarrow> float64" where
  "fneg (Finite x) = Finite (- x)"
| "fneg PosInf = NegInf"
| "fneg NegInf = PosInf"
| "fneg NaN = NaN"

fun fadd :: "float64 \<Rightarrow> float64 \<Rightarrow> float64" where
  "fadd (Finite x) (Finite y) = Finite (x + y)"
| "fadd NaN _ = NaN"
| "fadd _ NaN = NaN"
| "fadd PosInf NegInf = NaN"
| "fadd NegInf PosInf = NaN"
| "fadd PosInf _ = PosInf"
| "fadd _ PosInf = PosInf"
| "fadd NegInf _ = NegInf"
| "fadd _ NegInf = NegInf"

definition fsub :: "float64 \<Rightarrow> float64 \<Rightarrow> float64" where
  "fsub a b = fadd a (fneg b)"

definition signedInf :: "bool \<Rightarrow> float64" where
  "signedInf positive = (if positive then PosInf else NegInf)"

fun fmul :: "float64 \<Rightarrow> float64 \<Rightarrow> float64" where
  "fmul (Finite x) (Finite y) = Finite (x * y)"
| "fmul NaN _ = NaN"
| "fmul _ NaN = NaN"
| "fmul PosInf (Finite y) = (if y = 0 then NaN else signedInf (0 < y))"
| "fmul NegInf (Finite y) = (if y = 0 then NaN else signedInf (y < 0))"
| "fmul (Finite x) PosInf = (if x = 0 then NaN else signedInf (0 < x))"
| "fmul (Finite x) NegInf = (if x = 0 then NaN else signedInf (x < 0))"
| "fmul PosInf PosInf = PosInf"
| "fmul PosInf NegInf = NegInf"
| "fmul NegInf PosInf = NegInf"
| "fmul NegInf NegInf = PosInf"

fun fdiv :: "float64 \<Rightarrow> float64 \<Rightarrow> float64" where
  "fdiv (Finite x) (Finite y) =
     (if y = 0 then (if x = 0 then NaN else signedInf (0 < x)) else Finite (x / y))"
| "fdiv NaN _ = NaN"
| "fdiv _ NaN = NaN"
| "fdiv (Finite x) PosInf = Finite 0"
| "fdiv (Finite x) NegInf = Finite 0"
| "fdiv PosInf (Finite y) = signedInf (0 \<le> y)"
| "fdiv NegInf (Finite y) = signedInf (y < 0)"
| "fdiv _ _ = NaN"

text \<open>The conversion \<^verbatim>\<open>float64(n)\<close> of a Go integer.\<close>

definition float64_of_int :: "int \<Rightarrow> float64" where
  "float64_of_int n = Finite (of_int n)"

subsection \<open>Integers\<close>

text \<open>
  A Go \<^verbatim>\<open>int\<close> is modelled by \<open>int\<close>: the counts and sums of the program are exact,
  and the integer division of Go, which truncates towards zero, is \<open>sdiv\<close>.
\<close>

subsection \<open>Run-time panics\<close>

text \<open>
  Calling a method on a nil interface value, or reading a field through a nil pointer,
  panics. A function that can panic returns \<open>error + 'a\<close>, with \<open>Inl\<close> for the panic.
\<close>

datatype error = NilPointerDereference

subsection \<open>BitMask\<close>

text \<open>
  Modelled from the spec: the \<^verbatim>\<open>bitmask\<close> package is not among the source files. The
  spec describes a BitMask as a set over the NUMA node indices, with the count of set
  bits, set equality, bitwise AND and the predicate any-of(indices); the model is the
  set of bit indices itself. The order "narrower than" (\<^verbatim>\<open>IsNarrowerThan\<close>) is kept
  abstract: every function that compares masks takes it as the parameter \<open>narrower\<close>.
\<close>

type_synonym BitMask = "int set"

text \<open>Modelled from the spec: \<^verbatim>\<open>BitMask.Count\<close>, the count of set bits.\<close>

definition Count :: "BitMask \<Rightarrow> int" where
  "Count bm = int (card bm)"

text \<open>Modelled from the spec: \<^verbatim>\<open>BitMask.GetBits\<close>, the set bits in ascending order.\<close>

definition GetBits :: "BitMask \<Rightarrow> int list" where
  "GetBits bm = sorted_list_of_set bm"

text \<open>Modelled from the spec: \<^verbatim>\<open>BitMask.AnySet\<close>, the predicate any-of(indices).\<close>

definition AnySet :: "BitMask \<Rightarrow> int list \<Rightarrow> bool" where
  "AnySet bm bits = list_ex (\<lambda>b. b \<in> bm) bits"

text \<open>Modelled from the spec: \<^verbatim>\<open>BitMask.IsEqual\<close>, set equality.\<close>

definition mask_IsEqual :: "BitMask \<Rightarrow> BitMask \<Rightarrow> bool" where
  "mask_IsEqual a b = (a = b)"

text \<open>Modelled from the spec: the bitwise AND of two masks.\<close>

definition mask_And :: "BitMask \<Rightarrow> BitMask \<Rightarrow> BitMask" where
  "mask_And a b = a \<inter> b"

section \<open>topology\_manager.go: TopologyHint\<close>

text \<open>
  The struct \<^verbatim>\<open>TopologyHint\<close>. A nil interface value or nil pointer is \<open>None\<close>.
  The feature gate read by \<^verbatim>\<open>EnhancedTopologyHintsEnabled()\<close> is the parameter
  \<open>enabled\<close> of every function that reads it.
\<close>

record TopologyHint =
  NUMANodeAffinity :: "BitMask option"
  Preferred :: bool
  HopCount :: "int option"
  Bandwidth :: "float64 option"
  Distance :: "int option"
  Score :: "float64 option"

definition equalIntPointer :: "int option \<Rightarrow> int option \<Rightarrow> bool" where
  "equalIntPointer a b =
     (if a = None \<and> b = None then True
      else if a = None \<or> b = None then False
      else the a = the b)"

definition equalFloat64Pointer :: "float64 option \<Rightarrow> float64 option \<Rightarrow> bool" where
  "equalFloat64Pointer a b =
     (if a = None \<and> b = None then True
      else if a = None \<or> b = None then False
      else feq (the a) (the b))"

text \<open>
  The comparison of the two affinities in \<^verbatim>\<open>IsEqual\<close>: when one of them is nil they
  are equal only if both are; otherwise the masks are compared.
\<close>

definition equalAffinity :: "BitMask option \<Rightarrow> BitMask option \<Rightarrow> bool" where
  "equalAffinity a b =
     (if a = None \<or> b = None then a = b
      else mask_IsEqual (the a) (the b))"

definition IsEqual :: "TopologyHint \<Rightarrow> TopologyHint \<Rightarrow> bool" where
  "IsEqual th topologyHint =
     (if Preferred th \<noteq> Preferred topologyHint then False
      else if \<not> equalAffinity (NUMANodeAffinity th) (NUMANodeAffinity topologyHint) then False
      else if \<not> equalIntPointer (HopCount th) (HopCount topologyHint) then False
      else if \<not> equalFloat64Pointer (Bandwidth th) (Bandwidth topologyHint) then False
      else if \<not> equalIntPointer (Distance th) (Distance topologyHint) then False
      else if \<not> equalFloat64Pointer (Score th) (Score topologyHint) then False
      else True)"

definition hasEnhancedFields :: "TopologyHint \<Rightarrow> bool" where
  "hasEnhancedFields th =
     (HopCount th \<noteq> None \<or> Bandwidth th \<noteq> None \<or> Distance th \<noteq> None \<or> Score th \<noteq> None)"

text \<open>
  The four comparisons of the enhanced branch of \<^verbatim>\<open>LessThan\<close>. Each either returns
  from the function (\<open>Some result\<close>) or falls through to the next one (\<open>None\<close>).
\<close>

definition compareScore :: "TopologyHint \<Rightarrow> TopologyHint \<Rightarrow> bool option" where
  "compareScore th other =
     (case (Score th, Score other) of
        (Some s, Some t) \<Rightarrow> (if fne s t then Some (flt s t) else None)
      | (Some s, None) \<Rightarrow> Some True
      | (None, Some t) \<Rightarrow> Some False
      | (None, None) \<Rightarrow> None)"

definition compareHopCount :: "TopologyHint \<Rightarrow> TopologyHint \<Rightarrow> bool option" where
  "compareHopCount th other =
     (case (HopCount th, HopCount other) of
        (Some h, Some k) \<Rightarrow> (if h \<noteq> k then Some (h < k) else None)
      | _ \<Rightarrow> None)"

definition compareDistance :: "TopologyHint \<Rightarrow> TopologyHint \<Rightarrow> bool option" where
  "compareDistance th other =
     (case (Distance th, Distance other) of
        (Some d, Some e) \<Rightarrow> (if d \<noteq> e then Some (d < e) else None)
      | _ \<Rightarrow> None)"

definition compareBandwidth :: "TopologyHint \<Rightarrow> TopologyHint \<Rightarrow> bool option" where
  "compareBandwidth th other =
     (case (Bandwidth th, Bandwidth other) of
        (Some b, Some c) \<Rightarrow> (if fne b c then Some (fgt b c) else None)
      | _ \<Rightarrow> None)"

text \<open>
  The comparisons run in order; the first one that returns decides, and when all fall
  through the result is the comparison of the masks.
\<close>

fun firstDecided :: "bool option list \<Rightarrow> bool \<Rightarrow> bool" where
  "firstDecided [] numaComparison = numaComparison"
| "firstDecided (Some r # rest) numaComparison = r"
| "firstDecided (None # rest) numaComparison = firstDecided rest numaComparison"

text \<open>
  \<^verbatim>\<open>LessThan\<close>. After the test of \<^verbatim>\<open>Preferred\<close> the source calls
  \<^verbatim>\<open>th.NUMANodeAffinity.IsNarrowerThan(other.NUMANodeAffinity)\<close> with no nil check: a
  nil receiver panics. The mask order is defined on masks only, so a nil argument is
  modelled as the same panic.
\<close>

definition LessThan ::
  "bool \<Rightarrow> (BitMask \<Rightarrow> BitMask \<Rightarrow> bool) \<Rightarrow> TopologyHint \<Rightarrow> TopologyHint \<Rightarrow> error + bool" where
  "LessThan enabled narrower th other =
     (if Preferred th \<noteq> Preferred other then Inr (Preferred th)
      else case NUMANodeAffinity th of
        None \<Rightarrow> Inl NilPointerDereference
      | Some a \<Rightarrow>
         (case NUMANodeAffinity other of
            None \<Rightarrow> Inl NilPointerDereference
          | Some b \<Rightarrow>
             (let numaComparison = narrower a b in
              if enabled \<and> (hasEnhancedFields th \<or> hasEnhancedFields other) then
                Inr (firstDecided
                       [compareScore th other, compareHopCount th other,
                        compareDistance th other, compareBandwidth th other]
                       numaComparison)
              else Inr numaComparison)))"

definition GetHopCount :: "bool \<Rightarrow> TopologyHint \<Rightarrow> int" where
  "GetHopCount enabled th =
     (if \<not> enabled \<or> HopCount th = None then 0 else the (HopCount th))"

definition GetBandwidth :: "bool \<Rightarrow> TopologyHint \<Rightarrow> float64" where
  "GetBandwidth enabled th =
     (if \<not> enabled \<or> Bandwidth th = None then Finite 0 else the (Bandwidth th))"

definition GetDistance :: "bool \<Rightarrow> TopologyHint \<Rightarrow> int" where
  "GetDistance enabled th =
     (if \<not> enabled \<or> Distance th = None then 10 else the (Distance th))"

definition GetScore :: "bool \<Rightarrow> TopologyHint \<Rightarrow> float64" where
  "GetScore enabled th =
     (if \<not> enabled \<or> Score th = None then Finite 0 else the (Score th))"

definition SetEnhancedFields ::
  "bool \<Rightarrow> TopologyHint \<Rightarrow> int option \<Rightarrow> float64 option \<Rightarrow> int option \<Rightarrow> float64 option
     \<Rightarrow> TopologyHint" where
  "SetEnhancedFields enabled th hopCount bandwidth distance score =
     (if \<not> enabled then th
      else th\<lparr>HopCount := hopCount, Bandwidth := bandwidth, Distance := distance,
              Score := score\<rparr>)"

definition CalculateTopologyScore :: "bool \<Rightarrow> int \<Rightarrow> float64 \<Rightarrow> int \<Rightarrow> int \<Rightarrow> float64" where
  "CalculateTopologyScore enabled hopCount bandwidth distance dataSize =
     (if \<not> enabled then Finite 0
      else
        let baseLatency = Finite 10;
            hopLatency = Finite 10;
            latency = fadd baseLatency (fmul (float64_of_int hopCount) hopLatency);
            latency' = (if distance > 10 then fadd latency (float64_of_int (distance - 10))
                        else latency);
            bandwidthPenalty =
              (if fgt bandwidth (Finite 0) \<and> dataSize > 0 then
                 fdiv (float64_of_int dataSize)
                      (fmul (fmul (fmul bandwidth (Finite 1024)) (Finite 1024)) (Finite 1024))
               else Finite 0)
        in fadd latency' bandwidthPenalty)"

definition CreateEnhancedHint ::
  "bool \<Rightarrow> BitMask option \<Rightarrow> bool \<Rightarrow> int \<Rightarrow> float64 \<Rightarrow> int \<Rightarrow> int \<Rightarrow> TopologyHint" where
  "CreateEnhancedHint enabled numaAffinity preferred hopCount bandwidth distance dataSize =
     (let hint = \<lparr>NUMANodeAffinity = numaAffinity, Preferred = preferred, HopCount = None,
                  Bandwidth = None, Distance = None, Score = None\<rparr>
      in if enabled then
           hint\<lparr>HopCount := Some hopCount, Bandwidth := Some bandwidth,
                Distance := Some distance,
                Score := Some (CalculateTopologyScore enabled hopCount bandwidth distance dataSize)\<rparr>
         else hint)"

section \<open>Mask enumeration and NUMAInfo\<close>

text \<open>
  Modelled from the spec: \<^verbatim>\<open>bitmask.IterateBitMasks\<close> is not among the source files.
  The spec's enumerator visits every non-empty subset of the given node indices exactly
  once, smaller cardinalities before larger ones and, within one cardinality,
  lexicographically by ascending position. The model returns the masks in the order in
  which the visitor is called.
\<close>

definition masksOfSize :: "int list \<Rightarrow> nat \<Rightarrow> BitMask list" where
  "masksOfSize bits k = map set (filter (\<lambda>accum. length accum = k) (subseqs bits))"

text \<open>Modelled from the spec: \<^verbatim>\<open>bitmask.IterateBitMasks\<close>, the masks of size 1, then of size 2, and so on.\<close>

definition IterateBitMasks :: "int list \<Rightarrow> BitMask list" where
  "IterateBitMasks bits = concat (map (masksOfSize bits) [1..<Suc (length bits)])"

text \<open>
  The struct \<^verbatim>\<open>NUMAInfo\<close> as the tests build it: the node list and the distance rows.
\<close>

record NUMAInfo =
  Nodes :: "int list"
  NUMADistances :: "(int \<times> nat list) list"

text \<open>Modelled from the spec: \<^verbatim>\<open>NUMAInfo.DefaultAffinityMask\<close> is not among the
  source files; the spec's default affinity mask is the mask with all nodes set.\<close>

definition DefaultAffinityMask :: "NUMAInfo \<Rightarrow> BitMask" where
  "DefaultAffinityMask numaInfo = set (Nodes numaInfo)"

section \<open>Device manager: topology hints of a device resource\<close>

text \<open>
  A \<^verbatim>\<open>pluginapi.Device\<close> with its optional \<^verbatim>\<open>TopologyInfo\<close>, reduced to the list of
  the NUMA node ids it names (\<open>None\<close> is a nil \<^verbatim>\<open>Topology\<close>). \<^verbatim>\<open>DeviceInstances\<close> maps a
  device id to a pointer to its device; it is an association list holding each id once.
  A Go set of device ids is the list of its elements in the order the loop visits them.
\<close>

record Device =
  ID :: string
  Topology :: "int list option"

type_synonym DeviceInstances = "(string \<times> Device) list"

record ManagerImpl =
  numaNodes :: "int list"
  allDevices :: "(string \<times> DeviceInstances) list"

definition devicesOf :: "ManagerImpl \<Rightarrow> string \<Rightarrow> DeviceInstances" where
  "devicesOf m resource = (case map_of (allDevices m) resource of None \<Rightarrow> [] | Some ds \<Rightarrow> ds)"

definition getNUMANodeIds :: "int list option \<Rightarrow> int list" where
  "getNUMANodeIds topology = (case topology of None \<Rightarrow> [] | Some nodes \<Rightarrow> nodes)"

text \<open>
  The count of \<^verbatim>\<open>availableDevices\<close> in \<^verbatim>\<open>calculateEnhancedTopologyFields\<close>: for every
  device with topology, every node id of the device that equals one of the selected nodes
  adds one (the \<^verbatim>\<open>break\<close> leaves the loop over the selected nodes only).
\<close>

definition matchingNodeIds :: "int list \<Rightarrow> int list \<Rightarrow> int" where
  "matchingNodeIds deviceNodes selected =
     int (length (filter (\<lambda>nodeID. nodeID \<in> set selected) deviceNodes))"

definition countAvailableDevices :: "DeviceInstances \<Rightarrow> int list \<Rightarrow> int" where
  "countAvailableDevices devices selected =
     sum_list (map (\<lambda>(d, device).
        case Topology device of
          None \<Rightarrow> 0
        | Some nodes \<Rightarrow> matchingNodeIds (getNUMANodeIds (Some nodes)) selected) devices)"

definition calculateEnhancedTopologyFields ::
  "bool \<Rightarrow> ManagerImpl \<Rightarrow> TopologyHint \<Rightarrow> string \<Rightarrow> int \<Rightarrow> TopologyHint" where
  "calculateEnhancedTopologyFields enabled m hint resource requestedDevices =
     (if \<not> enabled then hint
      else case NUMANodeAffinity hint of
        None \<Rightarrow> hint
      | Some affinity \<Rightarrow>
         (let selected = GetBits affinity in
          if length selected = 0 then hint
          else
            let hopCount0 = int (length selected) - 1;
                hopCount = (if hopCount0 < 0 then 0 else hopCount0);
                nodeCount = length selected;
                totalDistance = (if nodeCount = 1 then 10 else 10 + hopCount * 20);
                baseBandwidth = Finite 80;
                bandwidthPenalty = fmul (float64_of_int hopCount) (Finite 0.4);
                bandwidth0 = fmul baseBandwidth (fsub (Finite 1) bandwidthPenalty);
                bandwidth = (if flt bandwidth0 (Finite 10) then Finite 10 else bandwidth0);
                availableDevices = countAvailableDevices (devicesOf m resource) selected;
                utilizationRatio0 =
                  fdiv (float64_of_int requestedDevices) (float64_of_int availableDevices);
                utilizationRatio =
                  (if fgt utilizationRatio0 (Finite 1) then Finite 1 else utilizationRatio0);
                distancePenalty = fmul (float64_of_int (totalDistance - 10)) (Finite 2);
                hopPenalty = fmul (float64_of_int hopCount) (Finite 12);
                utilizationBonus = fmul (fsub (Finite 1) utilizationRatio) (Finite 10);
                score0 = fsub (fadd distancePenalty hopPenalty) utilizationBonus;
                score = (if flt score0 (Finite 0) then Finite 0 else score0)
            in SetEnhancedFields enabled hint (Some hopCount) (Some bandwidth)
                 (Some totalDistance) (Some score)))"

text \<open>
  The three loops of the visitor in \<^verbatim>\<open>generateDeviceTopologyHints\<close>. A device id that
  is not in \<^verbatim>\<open>allDevices[resource]\<close> reads a nil pointer, and its \<^verbatim>\<open>Topology\<close> field
  panics. The loop over the reusable devices leaves the visitor (\<open>Inr None\<close>) at the first
  device with topology that the mask does not touch.
\<close>

definition devicesInMask :: "DeviceInstances \<Rightarrow> BitMask \<Rightarrow> int" where
  "devicesInMask devices bm =
     int (length (filter (\<lambda>(d, device). AnySet bm (getNUMANodeIds (Topology device))) devices))"

fun reusableLoop ::
  "DeviceInstances \<Rightarrow> BitMask \<Rightarrow> string list \<Rightarrow> int \<Rightarrow> error + int option" where
  "reusableLoop devices bm [] numMatching = Inr (Some numMatching)"
| "reusableLoop devices bm (d # ds) numMatching =
     (case map_of devices d of
        None \<Rightarrow> Inl NilPointerDereference
      | Some device \<Rightarrow>
         (if Topology device = None then reusableLoop devices bm ds numMatching
          else if \<not> AnySet bm (getNUMANodeIds (Topology device)) then Inr None
          else reusableLoop devices bm ds (numMatching + 1)))"

fun availableLoop ::
  "DeviceInstances \<Rightarrow> BitMask \<Rightarrow> string list \<Rightarrow> int \<Rightarrow> error + int" where
  "availableLoop devices bm [] numMatching = Inr numMatching"
| "availableLoop devices bm (d # ds) numMatching =
     (case map_of devices d of
        None \<Rightarrow> Inl NilPointerDereference
      | Some device \<Rightarrow>
         availableLoop devices bm ds
           (if AnySet bm (getNUMANodeIds (Topology device)) then numMatching + 1
            else numMatching))"

text \<open>
  One call of the visitor: the state is \<^verbatim>\<open>minAffinitySize\<close> and the hints appended so far.
\<close>

definition visitMask ::
  "bool \<Rightarrow> ManagerImpl \<Rightarrow> string \<Rightarrow> string list \<Rightarrow> string list \<Rightarrow> int \<Rightarrow> BitMask
     \<Rightarrow> int \<times> TopologyHint list \<Rightarrow> error + int \<times> TopologyHint list" where
  "visitMask enabled m resource available reusable request bm state =
     (let minAffinitySize0 = fst state;
          hints = snd state;
          minAffinitySize =
            (if devicesInMask (devicesOf m resource) bm \<ge> request \<and> Count bm < minAffinitySize0
             then Count bm else minAffinitySize0)
      in case reusableLoop (devicesOf m resource) bm reusable 0 of
           Inl e \<Rightarrow> Inl e
         | Inr None \<Rightarrow> Inr (minAffinitySize, hints)
         | Inr (Some numMatching0) \<Rightarrow>
            (case availableLoop (devicesOf m resource) bm available numMatching0 of
               Inl e \<Rightarrow> Inl e
             | Inr numMatching \<Rightarrow>
                (if numMatching < request then Inr (minAffinitySize, hints)
                 else
                   let hint = \<lparr>NUMANodeAffinity = Some bm, Preferred = False,
                                HopCount = None, Bandwidth = None, Distance = None,
                                Score = None\<rparr>;
                       hint' = (if enabled
                                then calculateEnhancedTopologyFields enabled m hint resource request
                                else hint)
                   in Inr (minAffinitySize, hints @ [hint']))))"

fun visitMasks ::
  "(BitMask \<Rightarrow> int \<times> TopologyHint list \<Rightarrow> error + int \<times> TopologyHint list)
     \<Rightarrow> BitMask list \<Rightarrow> int \<times> TopologyHint list \<Rightarrow> error + int \<times> TopologyHint list" where
  "visitMasks callback [] state = Inr state"
| "visitMasks callback (bm # bms) state =
     (case callback bm state of
        Inl e \<Rightarrow> Inl e
      | Inr state' \<Rightarrow> visitMasks callback bms state')"

text \<open>The second pass over the hints, which marks the preferred ones.\<close>

fun markPreferred :: "int \<Rightarrow> TopologyHint list \<Rightarrow> error + TopologyHint list" where
  "markPreferred minAffinitySize [] = Inr []"
| "markPreferred minAffinitySize (h # hs) =
     (case NUMANodeAffinity h of
        None \<Rightarrow> Inl NilPointerDereference
      | Some affinity \<Rightarrow>
         (case markPreferred minAffinitySize hs of
            Inl e \<Rightarrow> Inl e
          | Inr hs' \<Rightarrow>
             Inr ((if Count affinity = minAffinitySize then h\<lparr>Preferred := True\<rparr> else h) # hs')))"

definition generateDeviceTopologyHints ::
  "bool \<Rightarrow> ManagerImpl \<Rightarrow> string \<Rightarrow> string list \<Rightarrow> string list \<Rightarrow> int
     \<Rightarrow> error + TopologyHint list" where
  "generateDeviceTopologyHints enabled m resource available reusable request =
     (case visitMasks (visitMask enabled m resource available reusable request)
             (IterateBitMasks (numaNodes m)) (int (length (numaNodes m)), []) of
        Inl e \<Rightarrow> Inl e
      | Inr (minAffinitySize, hints) \<Rightarrow> markPreferred minAffinitySize hints)"

section \<open>Hint filtering and merging\<close>

text \<open>
  The argument of \<^verbatim>\<open>Merge\<close>: one map from resource names to hint lists per provider.
  A Go map is the association list of its entries in the order the loops visit them.
\<close>

type_synonym ProvidersHints = "(string \<times> TopologyHint list) list list"

text \<open>
  Modelled from the spec: \<^verbatim>\<open>filterProvidersHints\<close> is not among the source files. The
  spec's filter yields one hint list per resource of every provider; it drops a hint
  whose affinity is neither absent nor intersects the default mask, and it drops the
  non-preferred hints of a resource whose list has a preferred hint. The default mask
  the filter tests against is an explicit argument of the model.
\<close>

definition filterHints :: "BitMask \<Rightarrow> TopologyHint list \<Rightarrow> TopologyHint list" where
  "filterHints defaultAffinity hints =
     (let kept = filter (\<lambda>h. case NUMANodeAffinity h of
                               None \<Rightarrow> True
                             | Some a \<Rightarrow> mask_And a defaultAffinity \<noteq> {}) hints
      in if list_ex Preferred kept then filter Preferred kept else kept)"

text \<open>Modelled from the spec: \<^verbatim>\<open>filterProvidersHints\<close>, the filter applied to every
  resource of every provider.\<close>

definition filterProvidersHints :: "BitMask \<Rightarrow> ProvidersHints \<Rightarrow> TopologyHint list list" where
  "filterProvidersHints defaultAffinity providersHints =
     concat (map (map (\<lambda>(resource, hints). filterHints defaultAffinity hints)) providersHints)"

text \<open>
  Modelled from the spec: \<^verbatim>\<open>HintMerger.Merge\<close> (the classic merger) is not among the
  source files. Following the spec: every tuple with one hint per resource is merged
  into the AND of its affinities, an absent affinity standing for the default mask, and
  the AND of its preferred flags; tuples with an empty merged affinity are dropped; a
  candidate stays preferred only if its bit count is at most the minimal affinity size;
  the best candidate under \<^verbatim>\<open>LessThan\<close> is kept, starting from the sentinel with the
  default mask and \<^verbatim>\<open>Preferred = false\<close>. An empty input returns the sentinel. The
  policy name and the policy options play no part in the spec's description.
\<close>

text \<open>Modelled from the spec: the mask a hint contributes to a tuple, the default mask
  for a hint without affinity.\<close>

definition affinityOrDefault :: "BitMask \<Rightarrow> TopologyHint \<Rightarrow> BitMask" where
  "affinityOrDefault defaultAffinity h =
     (case NUMANodeAffinity h of None \<Rightarrow> defaultAffinity | Some a \<Rightarrow> a)"

text \<open>Modelled from the spec: the AND over the affinities of a tuple.\<close>

definition andAll :: "BitMask \<Rightarrow> BitMask list \<Rightarrow> BitMask" where
  "andAll defaultAffinity masks =
     (case masks of [] \<Rightarrow> defaultAffinity | a # rest \<Rightarrow> foldl mask_And a rest)"

text \<open>Modelled from the spec: the smallest of a list of bit counts.\<close>

definition minList :: "int \<Rightarrow> int list \<Rightarrow> int" where
  "minList fallback xs = (case xs of [] \<Rightarrow> fallback | x # rest \<Rightarrow> foldl min x rest)"

text \<open>Modelled from the spec: the minimal affinity size of the classic merger, the
  smallest bit count among the preferred input hints or, if there is none, among all.\<close>

definition minAffinitySizeOf :: "BitMask \<Rightarrow> TopologyHint list list \<Rightarrow> int" where
  "minAffinitySizeOf defaultAffinity hints =
     (let allHints = concat hints;
          preferredHints = filter Preferred allHints;
          counted = (if preferredHints \<noteq> [] then preferredHints else allHints)
      in minList (Count defaultAffinity)
           (map (\<lambda>h. Count (affinityOrDefault defaultAffinity h)) counted))"

text \<open>Modelled from the spec: the merge of one tuple by the classic merger.\<close>

definition mergePermutation :: "BitMask \<Rightarrow> int \<Rightarrow> TopologyHint list \<Rightarrow> TopologyHint" where
  "mergePermutation defaultAffinity minAffinitySize permutation =
     (let mergedAffinity =
            andAll defaultAffinity (map (affinityOrDefault defaultAffinity) permutation)
      in \<lparr>NUMANodeAffinity = Some mergedAffinity,
          Preferred = (list_all Preferred permutation \<and> Count mergedAffinity \<le> minAffinitySize),
          HopCount = None, Bandwidth = None, Distance = None, Score = None\<rparr>)"

text \<open>Modelled from the spec: the test that keeps the tuples whose merged affinity is
  not empty.\<close>

definition nonEmptyAffinity :: "TopologyHint \<Rightarrow> bool" where
  "nonEmptyAffinity h = (case NUMANodeAffinity h of None \<Rightarrow> False | Some a \<Rightarrow> a \<noteq> {})"

text \<open>Modelled from the spec: the sentinel the selection starts from.\<close>

definition seedHint :: "BitMask \<Rightarrow> TopologyHint" where
  "seedHint defaultAffinity =
     \<lparr>NUMANodeAffinity = Some defaultAffinity, Preferred = False, HopCount = None,
      Bandwidth = None, Distance = None, Score = None\<rparr>"

text \<open>Modelled from the spec: the selection of the best candidate under the comparison.\<close>

fun selectBest ::
  "(TopologyHint \<Rightarrow> TopologyHint \<Rightarrow> error + bool) \<Rightarrow> TopologyHint \<Rightarrow> TopologyHint list
     \<Rightarrow> error + TopologyHint" where
  "selectBest cmp best [] = Inr best"
| "selectBest cmp best (candidate # candidates) =
     (case cmp candidate best of
        Inl e \<Rightarrow> Inl e
      | Inr isLess \<Rightarrow> selectBest cmp (if isLess then candidate else best) candidates)"

text \<open>Modelled from the spec: \<^verbatim>\<open>HintMerger.Merge\<close>.\<close>

definition HintMerger_Merge ::
  "bool \<Rightarrow> (BitMask \<Rightarrow> BitMask \<Rightarrow> bool) \<Rightarrow> NUMAInfo \<Rightarrow> TopologyHint list list
     \<Rightarrow> error + TopologyHint" where
  "HintMerger_Merge enabled narrower numaInfo hints =
     (let defaultAffinity = DefaultAffinityMask numaInfo;
          minAffinitySize = minAffinitySizeOf defaultAffinity hints;
          candidates = (if hints = [] then []
                        else filter nonEmptyAffinity
                               (map (mergePermutation defaultAffinity minAffinitySize)
                                    (product_lists hints)))
      in selectBest (LessThan enabled narrower) (seedHint defaultAffinity) candidates)"

text \<open>
  Modelled from the spec: \<^verbatim>\<open>EnhancedHintMerger\<close> (constructor, \<^verbatim>\<open>SetDistributedMerging\<close>
  and \<^verbatim>\<open>Merge\<close>) is not among the source files. Following the spec it extends the
  classic merger on the filtered hints: the enhanced fields of a tuple are combined by
  maximum (hop count, distance), minimum (bandwidth) and sum (score), a field absent on
  one side taking the other side's value; the candidates are compared with
  \<^verbatim>\<open>LessThan\<close>; and with distributed merging two multi-node candidates of the same
  preferred band that both carry a score are ranked by the score alone.
\<close>

record EnhancedHintMerger =
  mergerNUMAInfo :: NUMAInfo
  mergerDefaultAffinity :: BitMask
  mergerHints :: ProvidersHints
  distributedMerging :: bool

text \<open>Modelled from the spec: \<^verbatim>\<open>NewEnhancedHintMerger\<close>.\<close>

definition NewEnhancedHintMerger ::
  "NUMAInfo \<Rightarrow> BitMask \<Rightarrow> ProvidersHints \<Rightarrow> EnhancedHintMerger" where
  "NewEnhancedHintMerger numaInfo defaultAffinity providersHints =
     \<lparr>mergerNUMAInfo = numaInfo, mergerDefaultAffinity = defaultAffinity,
      mergerHints = providersHints, distributedMerging = False\<rparr>"

text \<open>Modelled from the spec: \<^verbatim>\<open>EnhancedHintMerger.SetDistributedMerging\<close>.\<close>

definition SetDistributedMerging :: "EnhancedHintMerger \<Rightarrow> bool \<Rightarrow> EnhancedHintMerger" where
  "SetDistributedMerging merger flag = merger\<lparr>distributedMerging := flag\<rparr>"

text \<open>Modelled from the spec: the combination of an enhanced field of two hints, a field
  absent on one side taking the value of the other side.\<close>

definition combineField :: "('a \<Rightarrow> 'a \<Rightarrow> 'a) \<Rightarrow> 'a option \<Rightarrow> 'a option \<Rightarrow> 'a option" where
  "combineField f a b =
     (case (a, b) of
        (None, y) \<Rightarrow> y
      | (Some x, None) \<Rightarrow> Some x
      | (Some x, Some y) \<Rightarrow> Some (f x y))"

text \<open>Modelled from the spec: the smaller of two bandwidths.\<close>

definition fmin :: "float64 \<Rightarrow> float64 \<Rightarrow> float64" where
  "fmin a b = (if flt b a then b else a)"

text \<open>Modelled from the spec: the merge of one tuple by the enhanced merger.\<close>

definition mergeEnhancedPermutation ::
  "BitMask \<Rightarrow> int \<Rightarrow> TopologyHint list \<Rightarrow> TopologyHint" where
  "mergeEnhancedPermutation defaultAffinity minAffinitySize permutation =
     (mergePermutation defaultAffinity minAffinitySize permutation)
       \<lparr>HopCount := foldl (combineField max) None (map HopCount permutation),
        Bandwidth := foldl (combineField fmin) None (map Bandwidth permutation),
        Distance := foldl (combineField max) None (map Distance permutation),
        Score := foldl (combineField fadd) None (map Score permutation)\<rparr>"

text \<open>Modelled from the spec: a candidate on more than one node.\<close>

definition multiNode :: "TopologyHint \<Rightarrow> bool" where
  "multiNode h = (case NUMANodeAffinity h of None \<Rightarrow> False | Some a \<Rightarrow> Count a > 1)"

text \<open>Modelled from the spec: the comparison of two candidates by the enhanced merger.\<close>

definition candidateLess ::
  "bool \<Rightarrow> (BitMask \<Rightarrow> BitMask \<Rightarrow> bool) \<Rightarrow> bool \<Rightarrow> TopologyHint \<Rightarrow> TopologyHint
     \<Rightarrow> error + bool" where
  "candidateLess enabled narrower distributed a b =
     (if distributed \<and> Preferred a = Preferred b \<and> multiNode a \<and> multiNode b
         \<and> Score a \<noteq> None \<and> Score b \<noteq> None
      then Inr (flt (the (Score a)) (the (Score b)))
      else LessThan enabled narrower a b)"

text \<open>Modelled from the spec: \<^verbatim>\<open>EnhancedHintMerger.Merge\<close>.\<close>

definition EnhancedHintMerger_Merge ::
  "bool \<Rightarrow> (BitMask \<Rightarrow> BitMask \<Rightarrow> bool) \<Rightarrow> EnhancedHintMerger \<Rightarrow> error + TopologyHint" where
  "EnhancedHintMerger_Merge enabled narrower merger =
     (let defaultAffinity = mergerDefaultAffinity merger;
          hints = filterProvidersHints defaultAffinity (mergerHints merger);
          minAffinitySize = minAffinitySizeOf defaultAffinity hints;
          candidates = (if hints = [] then []
                        else filter nonEmptyAffinity
                               (map (mergeEnhancedPermutation defaultAffinity minAffinitySize)
                                    (product_lists hints)))
      in selectBest (candidateLess enabled narrower (distributedMerging merger))
           (seedHint defaultAffinity) candidates)"

section \<open>policy\_distributed.go\<close>

definition canAdmitPodResult :: "TopologyHint \<Rightarrow> bool" where
  "canAdmitPodResult hint = (NUMANodeAffinity hint \<noteq> None)"

definition hasMultipleResourceTypes :: "ProvidersHints \<Rightarrow> bool" where
  "hasMultipleResourceTypes providersHints =
     (length (remdups (concat (map (map fst) providersHints))) > 1)"

text \<open>The local variables that the loops of \<^verbatim>\<open>createDistributedHint\<close> update.\<close>

record distributedTotals =
  totalHopCount :: int
  totalDistance :: int
  totalBandwidth :: float64
  totalScore :: float64
  hintCount :: int
  allPreferred :: bool

definition collectHint :: "bool \<Rightarrow> distributedTotals \<Rightarrow> TopologyHint \<Rightarrow> distributedTotals" where
  "collectHint enabled totals hint =
     (if NUMANodeAffinity hint \<noteq> None then
        let counted = totals\<lparr>hintCount := hintCount totals + 1\<rparr>;
            flagged = (if \<not> Preferred hint then counted\<lparr>allPreferred := False\<rparr> else counted)
        in if enabled \<and> hasEnhancedFields hint then
             flagged\<lparr>totalHopCount := totalHopCount flagged + GetHopCount enabled hint,
                     totalDistance := totalDistance flagged + GetDistance enabled hint,
                     totalBandwidth := fadd (totalBandwidth flagged) (GetBandwidth enabled hint),
                     totalScore := fadd (totalScore flagged) (GetScore enabled hint)\<rparr>
           else flagged
      else totals)"

definition hintsOf :: "ProvidersHints \<Rightarrow> TopologyHint list" where
  "hintsOf providersHints = concat (map (\<lambda>providerHints. concat (map snd providerHints)) providersHints)"

definition createDistributedHint :: "bool \<Rightarrow> NUMAInfo \<Rightarrow> ProvidersHints \<Rightarrow> TopologyHint" where
  "createDistributedHint enabled numaInfo providersHints =
     (let distributedAffinity = DefaultAffinityMask numaInfo;
          totals = foldl (collectHint enabled)
                     \<lparr>totalHopCount = 0, totalDistance = 0, totalBandwidth = Finite 0,
                      totalScore = Finite 0, hintCount = 0, allPreferred = True\<rparr>
                     (hintsOf providersHints);
          distributedHint = \<lparr>NUMANodeAffinity = Some distributedAffinity,
                             Preferred = allPreferred totals, HopCount = None,
                             Bandwidth = None, Distance = None, Score = None\<rparr>
      in if enabled \<and> hintCount totals > 0 then
           let avgHopCount = totalHopCount totals sdiv hintCount totals;
               avgDistance = totalDistance totals sdiv hintCount totals;
               avgBandwidth = fdiv (totalBandwidth totals) (float64_of_int (hintCount totals));
               avgScore = fdiv (totalScore totals) (float64_of_int (hintCount totals));
               distributionPenalty =
                 fmul (float64_of_int (Count distributedAffinity - 1)) (Finite 5);
               adjustedScore = fadd avgScore distributionPenalty
           in distributedHint\<lparr>HopCount := Some avgHopCount, Distance := Some avgDistance,
                               Bandwidth := Some avgBandwidth, Score := Some adjustedScore\<rparr>
         else distributedHint)"

definition applyDistributionLogic ::
  "bool \<Rightarrow> (BitMask \<Rightarrow> BitMask \<Rightarrow> bool) \<Rightarrow> NUMAInfo \<Rightarrow> EnhancedHintMerger \<Rightarrow> ProvidersHints
     \<Rightarrow> error + TopologyHint" where
  "applyDistributionLogic enabled narrower numaInfo merger providersHints =
     (case EnhancedHintMerger_Merge enabled narrower merger of
        Inl e \<Rightarrow> Inl e
      | Inr baseHint \<Rightarrow>
         (if length (Nodes numaInfo) \<le> 1 then Inr baseHint
          else
            let distributedHint = createDistributedHint enabled numaInfo providersHints
            in if NUMANodeAffinity distributedHint \<noteq> None
                  \<and> Count (the (NUMANodeAffinity distributedHint)) > 1
               then Inr distributedHint
               else Inr baseHint))"

text \<open>\<^verbatim>\<open>distributedPolicy.Merge\<close>: the consensus hint and the admission flag.\<close>

definition Merge ::
  "bool \<Rightarrow> (BitMask \<Rightarrow> BitMask \<Rightarrow> bool) \<Rightarrow> NUMAInfo \<Rightarrow> ProvidersHints
     \<Rightarrow> error + TopologyHint \<times> bool" where
  "Merge enabled narrower numaInfo providersHints =
     (if \<not> enabled then
        (let filteredHints = filterProvidersHints (DefaultAffinityMask numaInfo) providersHints
         in case HintMerger_Merge enabled narrower numaInfo filteredHints of
              Inl e \<Rightarrow> Inl e
            | Inr bestHint \<Rightarrow> Inr (bestHint, NUMANodeAffinity bestHint \<noteq> None))
      else if \<not> hasMultipleResourceTypes providersHints then
        (let enhancedMerger =
               NewEnhancedHintMerger numaInfo (DefaultAffinityMask numaInfo) providersHints
         in case EnhancedHintMerger_Merge enabled narrower enhancedMerger of
              Inl e \<Rightarrow> Inl e
            | Inr bestHint \<Rightarrow> Inr (bestHint, canAdmitPodResult bestHint))
      else
        (let enhancedMerger =
               SetDistributedMerging
                 (NewEnhancedHintMerger numaInfo (DefaultAffinityMask numaInfo) providersHints)
                 True
         in case applyDistributionLogic enabled narrower numaInfo enhancedMerger providersHints of
              Inl e \<Rightarrow> Inl e
            | Inr distributedHint \<Rightarrow> Inr (distributedHint, canAdmitPodResult distributedHint)))"

section \<open>Auxiliary notions\<close>

text \<open>
  Two results of one comparison step, taken in the two directions, are opposed when a
  decision for the first operand is a decision against it in the other direction and a
  fall-through in one direction is a fall-through in the other.
\<close>

definition opposed :: "bool option \<Rightarrow> bool option \<Rightarrow> bool" where
  "opposed p q = ((p = Some True \<longrightarrow> q = Some False) \<and> (p = None \<longrightarrow> q = None))"

text \<open>The hint with no affinity and no enhanced field, and a hint whose score is NaN.\<close>

definition dontCareHint :: TopologyHint where
  "dontCareHint =
     \<lparr>NUMANodeAffinity = None, Preferred = True, HopCount = None, Bandwidth = None,
      Distance = None, Score = None\<rparr>"

definition nanScoreHint :: TopologyHint where
  "nanScoreHint =
     \<lparr>NUMANodeAffinity = Some {0}, Preferred = True, HopCount = None, Bandwidth = None,
      Distance = None, Score = Some NaN\<rparr>"

definition plainHint :: "int list \<Rightarrow> bool \<Rightarrow> TopologyHint" where
  "plainHint bits preferred =
     \<lparr>NUMANodeAffinity = Some (set bits), Preferred = preferred, HopCount = None,
      Bandwidth = None, Distance = None, Score = None\<rparr>"

definition enhancedHint ::
  "int list \<Rightarrow> bool \<Rightarrow> int \<Rightarrow> real \<Rightarrow> int \<Rightarrow> real \<Rightarrow> TopologyHint" where
  "enhancedHint bits preferred hops bandwidth distance score =
     \<lparr>NUMANodeAffinity = Some (set bits), Preferred = preferred, HopCount = Some hops,
      Bandwidth = Some (Finite bandwidth), Distance = Some distance,
      Score = Some (Finite score)\<rparr>"

text \<open>
  Notions for the device generator. A device id declares topology when its device has a
  non-nil \<^verbatim>\<open>Topology\<close>, and touches a mask when \<^verbatim>\<open>AnySet\<close> holds of its node ids. A
  mask is emitted when every reusable device that declares topology touches it and the
  number of such reusable devices plus the number of available devices touching it
  reaches the request.
\<close>

definition declaresTopology :: "DeviceInstances \<Rightarrow> string \<Rightarrow> bool" where
  "declaresTopology devices d =
     (case map_of devices d of None \<Rightarrow> False | Some device \<Rightarrow> Topology device \<noteq> None)"

definition touchesMask :: "DeviceInstances \<Rightarrow> BitMask \<Rightarrow> string \<Rightarrow> bool" where
  "touchesMask devices bm d =
     (case map_of devices d of
        None \<Rightarrow> False
      | Some device \<Rightarrow> AnySet bm (getNUMANodeIds (Topology device)))"

definition maskEmitted :: "DeviceInstances \<Rightarrow> string list \<Rightarrow> string list \<Rightarrow> int \<Rightarrow> BitMask \<Rightarrow> bool" where
  "maskEmitted devices available reusable request bm =
     (list_all (\<lambda>d. declaresTopology devices d \<longrightarrow> touchesMask devices bm d) reusable
      \<and> request \<le> int (length (filter (declaresTopology devices) reusable))
                    + int (length (filter (touchesMask devices bm) available)))"

text \<open>
  The minimal affinity size in the words of the spec: the least bit count of an
  enumerated mask whose devices reach the request, starting from the number of NUMA
  nodes.
\<close>

definition minAffinitySizeSpec :: "ManagerImpl \<Rightarrow> string \<Rightarrow> int \<Rightarrow> int" where
  "minAffinitySizeSpec m resource request =
     Min (insert (int (length (numaNodes m)))
            (Count ` {bm \<in> set (IterateBitMasks (numaNodes m)).
                        request \<le> devicesInMask (devicesOf m resource) bm}))"

text \<open>
  The hint the visitor appends for a mask, one update of \<^verbatim>\<open>minAffinitySize\<close>, and the
  update of one hint by the second pass.
\<close>

definition emittedHint :: "bool \<Rightarrow> ManagerImpl \<Rightarrow> string \<Rightarrow> int \<Rightarrow> BitMask \<Rightarrow> TopologyHint" where
  "emittedHint enabled m resource request bm =
     (let hint = \<lparr>NUMANodeAffinity = Some bm, Preferred = False, HopCount = None,
                  Bandwidth = None, Distance = None, Score = None\<rparr>
      in if enabled then calculateEnhancedTopologyFields enabled m hint resource request
         else hint)"

definition lowerMin :: "DeviceInstances \<Rightarrow> int \<Rightarrow> int \<Rightarrow> BitMask \<Rightarrow> int" where
  "lowerMin devices request minAffinitySize bm =
     (if request \<le> devicesInMask devices bm \<and> Count bm < minAffinitySize then Count bm
      else minAffinitySize)"

definition markHint :: "int \<Rightarrow> TopologyHint \<Rightarrow> TopologyHint" where
  "markHint minAffinitySize h =
     (if Count (the (NUMANodeAffinity h)) = minAffinitySize then h\<lparr>Preferred := True\<rparr> else h)"

text \<open>
  The score of a device hint in the words of the spec, with \<open>devicesInMaskCount\<close> the
  number of devices whose topology intersects the mask.
\<close>

definition specDeviceScore :: "int \<Rightarrow> int \<Rightarrow> int \<Rightarrow> int \<Rightarrow> real" where
  "specDeviceScore distance hopCount k devicesInMaskCount =
     max 0 (2 * (of_int distance - 10) + 12 * of_int hopCount
            - 10 * (1 - min 1 (of_int k / of_int devicesInMaskCount)))"

text \<open>
  Device managers for the examples: one device that spans both nodes of a two-node
  machine; the spec's scenario of four nodes with one device on node 0 and one on node
  1; and a two-node machine with a device without topology.
\<close>

definition spannedDeviceManager :: ManagerImpl where
  "spannedDeviceManager =
     \<lparr>numaNodes = [0, 1],
      allDevices = [(''gpu'', [(''Dev0'', \<lparr>ID = ''Dev0'', Topology = Some [0, 1]\<rparr>)])]\<rparr>"

definition fourNodeManager :: ManagerImpl where
  "fourNodeManager =
     \<lparr>numaNodes = [0, 1, 2, 3],
      allDevices = [(''gpu'', [(''Dev0'', \<lparr>ID = ''Dev0'', Topology = Some [0]\<rparr>),
                              (''Dev1'', \<lparr>ID = ''Dev1'', Topology = Some [1]\<rparr>)])]\<rparr>"

definition reuseManager :: ManagerImpl where
  "reuseManager =
     \<lparr>numaNodes = [0, 1],
      allDevices = [(''gpu'', [(''Dev0'', \<lparr>ID = ''Dev0'', Topology = Some [0]\<rparr>),
                              (''Dev1'', \<lparr>ID = ''Dev1'', Topology = Some [1]\<rparr>),
                              (''DevX'', \<lparr>ID = ''DevX'', Topology = None\<rparr>)])]\<rparr>"

text \<open>
  The input hints that \<^verbatim>\<open>createDistributedHint\<close> counts: those with an affinity.
\<close>

definition hintsWithAffinity :: "ProvidersHints \<Rightarrow> TopologyHint list" where
  "hintsWithAffinity providersHints =
     filter (\<lambda>h. NUMANodeAffinity h \<noteq> None) (hintsOf providersHints)"

text \<open>
  The two-node machine of the tests, and a hint without affinity that carries enhanced
  fields (the hint of the nil-handling tests).
\<close>

definition twoNodeInfo :: NUMAInfo where
  "twoNodeInfo = \<lparr>Nodes = [0, 1], NUMADistances = [(0, [10, 11]), (1, [11, 10])]\<rparr>"

definition dontCareScoredHint :: "real \<Rightarrow> TopologyHint" where
  "dontCareScoredHint score =
     \<lparr>NUMANodeAffinity = None, Preferred = True, HopCount = Some 1,
      Bandwidth = Some (Finite 100), Distance = Some 10, Score = Some (Finite score)\<rparr>"

section \<open>Properties of the hint model\<close>

subsection \<open>float64 comparisons\<close>

lemma feq_sym: "feq a b = feq b a"
  by (cases a; cases b) auto

lemma feq_refl: "a \<noteq> NaN \<Longrightarrow> feq a a"
  by (cases a) auto

lemma flt_asym: "flt a b \<Longrightarrow> \<not> flt b a"
  by (cases a; cases b) auto

subsection \<open>Equality\<close>

lemma equalIntPointer_sym: "equalIntPointer a b = equalIntPointer b a"
  by (auto simp: equalIntPointer_def)

lemma equalFloat64Pointer_sym: "equalFloat64Pointer a b = equalFloat64Pointer b a"
  by (auto simp: equalFloat64Pointer_def feq_sym)

lemma equalAffinity_sym: "equalAffinity a b = equalAffinity b a"
  by (auto simp: equalAffinity_def mask_IsEqual_def)

lemma IsEqual_sym: "IsEqual a b = IsEqual b a"
  unfolding IsEqual_def
  by (simp add: equalIntPointer_sym [of "HopCount a"] equalIntPointer_sym [of "Distance a"]
      equalFloat64Pointer_sym [of "Bandwidth a"] equalFloat64Pointer_sym [of "Score a"]
      equalAffinity_sym [of "NUMANodeAffinity a"] eq_commute [of "Preferred a"])

lemma IsEqual_refl:
  "Bandwidth h \<noteq> Some NaN \<Longrightarrow> Score h \<noteq> Some NaN \<Longrightarrow> IsEqual h h"
  unfolding IsEqual_def equalIntPointer_def equalFloat64Pointer_def equalAffinity_def
    mask_IsEqual_def
  by (auto simp: feq_refl)

lemma IsEqual_fields:
  assumes "IsEqual a b"
  shows "(HopCount a = None) = (HopCount b = None)"
    and "(Bandwidth a = None) = (Bandwidth b = None)"
    and "(Distance a = None) = (Distance b = None)"
    and "(Score a = None) = (Score b = None)"
    and "(NUMANodeAffinity a = None) = (NUMANodeAffinity b = None)"
  using assms
  unfolding IsEqual_def equalIntPointer_def equalFloat64Pointer_def equalAffinity_def
  by (auto split: if_splits)

subsection \<open>Ordering\<close>

lemma compareScore_opposed: "opposed (compareScore a b) (compareScore b a)"
  unfolding compareScore_def fne_def opposed_def
  by (cases "Score a"; cases "Score b") (auto simp: feq_sym dest: flt_asym)

lemma compareHopCount_opposed: "opposed (compareHopCount a b) (compareHopCount b a)"
  unfolding compareHopCount_def opposed_def
  by (cases "HopCount a"; cases "HopCount b") auto

lemma compareDistance_opposed: "opposed (compareDistance a b) (compareDistance b a)"
  unfolding compareDistance_def opposed_def
  by (cases "Distance a"; cases "Distance b") auto

lemma compareBandwidth_opposed: "opposed (compareBandwidth a b) (compareBandwidth b a)"
  unfolding compareBandwidth_def fne_def fgt_def opposed_def
  by (cases "Bandwidth a"; cases "Bandwidth b") (auto simp: feq_sym dest: flt_asym)

lemma firstDecided_opposed:
  "list_all2 opposed ps qs \<Longrightarrow> \<not> (d \<and> e) \<Longrightarrow> firstDecided ps d \<Longrightarrow> \<not> firstDecided qs e"
proof (induction ps qs rule: list_all2_induct)
  case Nil
  then show ?case by simp
next
  case (Cons p ps q qs)
  then show ?case
    by (cases p; cases q) (auto simp: opposed_def)
qed

lemma LessThan_Some:
  "Preferred a = Preferred b \<Longrightarrow> NUMANodeAffinity a = Some x \<Longrightarrow> NUMANodeAffinity b = Some y \<Longrightarrow>
   LessThan en narrower a b =
     Inr (if en \<and> (hasEnhancedFields a \<or> hasEnhancedFields b)
          then firstDecided [compareScore a b, compareHopCount a b, compareDistance a b,
                             compareBandwidth a b] (narrower x y)
          else narrower x y)"
  by (auto simp: LessThan_def Let_def)

lemma LessThan_total:
  assumes "NUMANodeAffinity a \<noteq> None" and "NUMANodeAffinity b \<noteq> None"
  shows "\<exists>r. LessThan en narrower a b = Inr r"
proof (cases "Preferred a = Preferred b")
  case True
  from assms obtain x y where "NUMANodeAffinity a = Some x" "NUMANodeAffinity b = Some y"
    by auto
  with True show ?thesis by (simp add: LessThan_Some)
next
  case False
  then show ?thesis by (simp add: LessThan_def)
qed

lemma LessThan_asym:
  assumes nar: "\<And>x y. narrower x y \<Longrightarrow> \<not> narrower y x"
    and ab: "LessThan en narrower a b = Inr True"
  shows "LessThan en narrower b a \<noteq> Inr True"
proof (cases "Preferred a = Preferred b")
  case False
  with ab show ?thesis by (auto simp: LessThan_def)
next
  case True
  from ab True obtain x y
    where x: "NUMANodeAffinity a = Some x" and y: "NUMANodeAffinity b = Some y"
    by (auto simp: LessThan_def split: option.splits)
  have ops: "list_all2 opposed
      [compareScore a b, compareHopCount a b, compareDistance a b, compareBandwidth a b]
      [compareScore b a, compareHopCount b a, compareDistance b a, compareBandwidth b a]"
    by (simp add: compareScore_opposed compareHopCount_opposed compareDistance_opposed
        compareBandwidth_opposed)
  have ab': "LessThan en narrower a b =
      Inr (if en \<and> (hasEnhancedFields a \<or> hasEnhancedFields b)
           then firstDecided [compareScore a b, compareHopCount a b, compareDistance a b,
                              compareBandwidth a b] (narrower x y)
           else narrower x y)"
    using True x y by (rule LessThan_Some)
  have ba': "LessThan en narrower b a =
      Inr (if en \<and> (hasEnhancedFields b \<or> hasEnhancedFields a)
           then firstDecided [compareScore b a, compareHopCount b a, compareDistance b a,
                              compareBandwidth b a] (narrower y x)
           else narrower y x)"
    using True [symmetric] y x by (rule LessThan_Some)
  show ?thesis
  proof (cases "en \<and> (hasEnhancedFields a \<or> hasEnhancedFields b)")
    case False
    with ab ab' have "narrower x y" by simp
    then have "\<not> narrower y x" by (rule nar)
    with False ba' show ?thesis by auto
  next
    case enh: True
    with ab ab' have "firstDecided [compareScore a b, compareHopCount a b,
        compareDistance a b, compareBandwidth a b] (narrower x y)"
      by simp
    then have "\<not> firstDecided [compareScore b a, compareHopCount b a,
        compareDistance b a, compareBandwidth b a] (narrower y x)"
      using firstDecided_opposed [OF ops, of "narrower x y" "narrower y x"] nar by blast
    with enh ba' show ?thesis by auto
  qed
qed

section \<open>Properties of the device generator\<close>

lemma declaresTopology_Some:
  "map_of devices d = Some device \<Longrightarrow> declaresTopology devices d = (Topology device \<noteq> None)"
  by (simp add: declaresTopology_def)

lemma touchesMask_Some:
  "map_of devices d = Some device \<Longrightarrow>
     touchesMask devices bm d = AnySet bm (getNUMANodeIds (Topology device))"
  by (simp add: touchesMask_def)

lemma reusableLoop_Some:
  "reusableLoop devices bm ds n = Inr (Some k) \<Longrightarrow>
     list_all (\<lambda>d. declaresTopology devices d \<longrightarrow> touchesMask devices bm d) ds
     \<and> k = n + int (length (filter (declaresTopology devices) ds))"
proof (induction ds arbitrary: n)
  case Nil
  then show ?case by simp
next
  case (Cons d ds)
  from Cons.prems obtain device where dev: "map_of devices d = Some device"
    by (auto split: option.splits)
  show ?case
  proof (cases "Topology device = None")
    case True
    with Cons.prems dev have "reusableLoop devices bm ds n = Inr (Some k)" by simp
    from Cons.IH [OF this] True dev show ?thesis
      by (simp add: declaresTopology_Some)
  next
    case False
    with Cons.prems dev have any: "AnySet bm (getNUMANodeIds (Topology device))"
      by (auto split: if_splits)
    with Cons.prems dev False have "reusableLoop devices bm ds (n + 1) = Inr (Some k)" by simp
    from Cons.IH [OF this] False dev any show ?thesis
      by (simp add: declaresTopology_Some touchesMask_Some)
  qed
qed

lemma reusableLoop_None:
  "reusableLoop devices bm ds n = Inr None \<Longrightarrow>
     \<not> list_all (\<lambda>d. declaresTopology devices d \<longrightarrow> touchesMask devices bm d) ds"
proof (induction ds arbitrary: n)
  case Nil
  then show ?case by simp
next
  case (Cons d ds)
  from Cons.prems obtain device where dev: "map_of devices d = Some device"
    by (auto split: option.splits)
  show ?case
  proof (cases "Topology device = None")
    case True
    with Cons.prems dev have "reusableLoop devices bm ds n = Inr None" by simp
    from Cons.IH [OF this] show ?thesis by simp
  next
    case False
    show ?thesis
    proof (cases "AnySet bm (getNUMANodeIds (Topology device))")
      case True
      with Cons.prems dev False have "reusableLoop devices bm ds (n + 1) = Inr None" by simp
      from Cons.IH [OF this] show ?thesis by simp
    next
      case noTouch: False
      with dev False show ?thesis
        by (simp add: declaresTopology_Some touchesMask_Some)
    qed
  qed
qed

lemma availableLoop_Inr:
  "availableLoop devices bm ds n = Inr k \<Longrightarrow>
     k = n + int (length (filter (touchesMask devices bm) ds))"
proof (induction ds arbitrary: n)
  case Nil
  then show ?case by simp
next
  case (Cons d ds)
  from Cons.prems obtain device where dev: "map_of devices d = Some device"
    by (auto split: option.splits)
  let ?n = "if AnySet bm (getNUMANodeIds (Topology device)) then n + 1 else n"
  from Cons.prems dev have "availableLoop devices bm ds ?n = Inr k" by simp
  from Cons.IH [OF this] dev show ?case
    by (simp add: touchesMask_Some)
qed

lemma reusableLoop_known:
  "set ds \<subseteq> fst ` set devices \<Longrightarrow> \<exists>r. reusableLoop devices bm ds n = Inr r"
proof (induction ds arbitrary: n)
  case Nil
  then show ?case by simp
next
  case (Cons d ds)
  then obtain device where "map_of devices d = Some device"
    by (metis list.set_intros(1) map_of_eq_None_iff not_Some_eq subsetD)
  with Cons show ?case by auto
qed

lemma availableLoop_known:
  "set ds \<subseteq> fst ` set devices \<Longrightarrow> \<exists>k. availableLoop devices bm ds n = Inr k"
proof (induction ds arbitrary: n)
  case Nil
  then show ?case by simp
next
  case (Cons d ds)
  then obtain device where "map_of devices d = Some device"
    by (metis list.set_intros(1) map_of_eq_None_iff not_Some_eq subsetD)
  with Cons show ?case by auto
qed

lemma calculate_affinity:
  "NUMANodeAffinity (calculateEnhancedTopologyFields en m hint resource request) = NUMANodeAffinity hint"
  "Preferred (calculateEnhancedTopologyFields en m hint resource request) = Preferred hint"
  by (simp_all add: calculateEnhancedTopologyFields_def SetEnhancedFields_def Let_def split: option.splits)

lemma calculate_off:
  "calculateEnhancedTopologyFields False m hint resource request = hint"
  by (simp add: calculateEnhancedTopologyFields_def)

lemma calculate_on:
  "NUMANodeAffinity hint = Some bm \<Longrightarrow> finite bm \<Longrightarrow> bm \<noteq> {} \<Longrightarrow>
   HopCount (calculateEnhancedTopologyFields True m hint resource request) \<noteq> None
   \<and> Bandwidth (calculateEnhancedTopologyFields True m hint resource request) \<noteq> None
   \<and> Distance (calculateEnhancedTopologyFields True m hint resource request) \<noteq> None
   \<and> Score (calculateEnhancedTopologyFields True m hint resource request) \<noteq> None"
  by (simp add: calculateEnhancedTopologyFields_def SetEnhancedFields_def Let_def GetBits_def)

lemma emittedHint_affinity:
  "NUMANodeAffinity (emittedHint en m resource request bm) = Some bm"
  "Preferred (emittedHint en m resource request bm) = False"
  by (simp_all add: emittedHint_def Let_def calculate_affinity)

lemma visitMask_Inr:
  assumes "visitMask en m resource available reusable request bm (mn, hs) = Inr (mn', hs')"
  shows "mn' = lowerMin (devicesOf m resource) request mn bm"
    and "hs' = (if maskEmitted (devicesOf m resource) available reusable request bm
                then hs @ [emittedHint en m resource request bm] else hs)"
proof -
  let ?devs = "devicesOf m resource"
  obtain r where r: "reusableLoop ?devs bm reusable 0 = Inr r"
    using assms by (auto simp: visitMask_def Let_def split: sum.splits)
  show "mn' = lowerMin ?devs request mn bm"
    using assms
    by (auto simp: visitMask_def Let_def lowerMin_def split: sum.splits option.splits if_splits)
  show "hs' = (if maskEmitted ?devs available reusable request bm
                then hs @ [emittedHint en m resource request bm] else hs)"
  proof (cases r)
    case None
    with r have "\<not> maskEmitted ?devs available reusable request bm"
      using reusableLoop_None [of ?devs bm reusable 0] by (simp add: maskEmitted_def)
    moreover from assms r None have "hs' = hs"
      by (simp add: visitMask_def Let_def)
    ultimately show ?thesis by simp
  next
    case (Some n0)
    with r have all: "list_all (\<lambda>d. declaresTopology ?devs d \<longrightarrow> touchesMask ?devs bm d) reusable"
      and n0: "n0 = int (length (filter (declaresTopology ?devs) reusable))"
      using reusableLoop_Some [of ?devs bm reusable 0 n0] by simp_all
    obtain k where k: "availableLoop ?devs bm available n0 = Inr k"
      using assms r Some by (auto simp: visitMask_def Let_def split: sum.splits)
    then have keq: "k = n0 + int (length (filter (touchesMask ?devs bm) available))"
      by (rule availableLoop_Inr)
    have em: "maskEmitted ?devs available reusable request bm = (\<not> k < request)"
      using all n0 keq by (auto simp: maskEmitted_def)
    from assms r Some k have "hs' = (if k < request then hs
        else hs @ [emittedHint en m resource request bm])"
      by (auto simp: visitMask_def Let_def emittedHint_def split: if_splits)
    with em show ?thesis by simp
  qed
qed

lemma visitMasks_Inr:
  "visitMasks (visitMask en m resource available reusable request) bms (mn, hs) = Inr (mn', hs') \<Longrightarrow>
     mn' = foldl (lowerMin (devicesOf m resource) request) mn bms
     \<and> hs' = hs @ map (emittedHint en m resource request)
                     (filter (maskEmitted (devicesOf m resource) available reusable request) bms)"
proof (induction bms arbitrary: mn hs)
  case Nil
  then show ?case by simp
next
  case (Cons bm bms)
  from Cons.prems obtain mn1 hs1
    where step: "visitMask en m resource available reusable request bm (mn, hs) = Inr (mn1, hs1)"
      and rest: "visitMasks (visitMask en m resource available reusable request) bms (mn1, hs1)
                   = Inr (mn', hs')"
    by (auto split: sum.splits)
  from visitMask_Inr [OF step] Cons.IH [OF rest] show ?case by simp
qed

lemma Min_insert_min:
  "finite S \<Longrightarrow> Min (insert (min a b) S) = Min (insert a (insert b S))"
  for a b :: int
  by (cases "S = {}") (simp_all add: min.assoc)

lemma foldl_lowerMin:
  "foldl (lowerMin devices request) mn bms =
     Min (insert mn (Count ` {bm \<in> set bms. request \<le> devicesInMask devices bm}))"
proof (induction bms arbitrary: mn)
  case Nil
  then show ?case by simp
next
  case (Cons bm bms)
  let ?S = "Count ` {b \<in> set bms. request \<le> devicesInMask devices b}"
  have fin: "finite ?S" by simp
  show ?case
  proof (cases "request \<le> devicesInMask devices bm")
    case True
    then have set_eq: "Count ` {b \<in> set (bm # bms). request \<le> devicesInMask devices b}
        = insert (Count bm) ?S" by auto
    have "lowerMin devices request mn bm = min mn (Count bm)"
      using True by (auto simp: lowerMin_def)
    then have "foldl (lowerMin devices request) mn (bm # bms)
        = Min (insert (min mn (Count bm)) ?S)"
      using Cons.IH by simp
    also have "\<dots> = Min (insert mn (insert (Count bm) ?S))"
      using fin by (rule Min_insert_min)
    finally show ?thesis using set_eq by simp
  next
    case False
    then have set_eq: "Count ` {b \<in> set (bm # bms). request \<le> devicesInMask devices b} = ?S"
      by auto
    have "lowerMin devices request mn bm = mn"
      using False by (simp add: lowerMin_def)
    then show ?thesis using Cons.IH set_eq by simp
  qed
qed

lemma markPreferred_Inr:
  "\<forall>h \<in> set hs. NUMANodeAffinity h \<noteq> None \<Longrightarrow>
     markPreferred mn hs = Inr (map (markHint mn) hs)"
  by (induction hs) (auto simp: markHint_def)

lemma generate_Inr:
  assumes "generateDeviceTopologyHints en m resource available reusable request = Inr hints"
  shows "hints = map (markHint (minAffinitySizeSpec m resource request))
                   (map (emittedHint en m resource request)
                      (filter (maskEmitted (devicesOf m resource) available reusable request)
                         (IterateBitMasks (numaNodes m))))"
proof -
  obtain mn hs where v: "visitMasks (visitMask en m resource available reusable request)
      (IterateBitMasks (numaNodes m)) (int (length (numaNodes m)), []) = Inr (mn, hs)"
    and mk: "markPreferred mn hs = Inr hints"
    using assms by (auto simp: generateDeviceTopologyHints_def split: sum.splits)
  from visitMasks_Inr [OF v]
  have mn: "mn = minAffinitySizeSpec m resource request"
    and hs: "hs = map (emittedHint en m resource request)
                   (filter (maskEmitted (devicesOf m resource) available reusable request)
                      (IterateBitMasks (numaNodes m)))"
    by (simp_all add: foldl_lowerMin minAffinitySizeSpec_def)
  have "\<forall>h \<in> set hs. NUMANodeAffinity h \<noteq> None"
    using hs by (auto simp: emittedHint_affinity)
  from markPreferred_Inr [OF this, of mn] mk have "hints = map (markHint mn) hs" by simp
  with mn hs show ?thesis by simp
qed

lemma visitMask_known:
  assumes "set available \<subseteq> fst ` set (devicesOf m resource)"
    and "set reusable \<subseteq> fst ` set (devicesOf m resource)"
  shows "\<exists>st'. visitMask en m resource available reusable request bm st = Inr st'"
proof -
  let ?devs = "devicesOf m resource"
  obtain r where r: "reusableLoop ?devs bm reusable 0 = Inr r"
    using reusableLoop_known [OF assms(2)] by blast
  show ?thesis
  proof (cases r)
    case None
    with r show ?thesis by (simp add: visitMask_def Let_def)
  next
    case (Some n0)
    obtain k where "availableLoop ?devs bm available n0 = Inr k"
      using availableLoop_known [OF assms(1)] by blast
    with r Some show ?thesis by (simp add: visitMask_def Let_def)
  qed
qed

lemma visitMasks_known:
  assumes "set available \<subseteq> fst ` set (devicesOf m resource)"
    and "set reusable \<subseteq> fst ` set (devicesOf m resource)"
  shows "\<exists>st'. visitMasks (visitMask en m resource available reusable request) bms st = Inr st'"
proof (induction bms arbitrary: st)
  case Nil
  then show ?case by simp
next
  case (Cons bm bms)
  obtain st1 where "visitMask en m resource available reusable request bm st = Inr st1"
    using visitMask_known [OF assms] by blast
  with Cons.IH [of st1] show ?case by simp
qed

lemma generate_known:
  assumes "set available \<subseteq> fst ` set (devicesOf m resource)"
    and "set reusable \<subseteq> fst ` set (devicesOf m resource)"
  shows "\<exists>hints. generateDeviceTopologyHints en m resource available reusable request = Inr hints"
proof -
  obtain mn hs where v: "visitMasks (visitMask en m resource available reusable request)
      (IterateBitMasks (numaNodes m)) (int (length (numaNodes m)), []) = Inr (mn, hs)"
    using visitMasks_known [OF assms] by (metis surj_pair)
  from visitMasks_Inr [OF v] have "\<forall>h \<in> set hs. NUMANodeAffinity h \<noteq> None"
    by (auto simp: emittedHint_affinity)
  from markPreferred_Inr [OF this, of mn] v show ?thesis
    by (simp add: generateDeviceTopologyHints_def)
qed

lemma IterateBitMasks_nonempty:
  "bm \<in> set (IterateBitMasks bits) \<Longrightarrow> finite bm \<and> bm \<noteq> {}"
  by (auto simp: IterateBitMasks_def masksOfSize_def)

lemma markHint_fields:
  "NUMANodeAffinity (markHint mn h) = NUMANodeAffinity h"
  "HopCount (markHint mn h) = HopCount h"
  "Bandwidth (markHint mn h) = Bandwidth h"
  "Distance (markHint mn h) = Distance h"
  "Score (markHint mn h) = Score h"
  "Preferred (markHint mn h) = (Preferred h \<or> Count (the (NUMANodeAffinity h)) = mn)"
  by (simp_all add: markHint_def)

lemma emittedHint_off: "\<not> hasEnhancedFields (emittedHint False m resource request bm)"
  by (simp add: emittedHint_def hasEnhancedFields_def)

lemma emittedHint_on:
  "finite bm \<Longrightarrow> bm \<noteq> {} \<Longrightarrow>
   HopCount (emittedHint True m resource request bm) \<noteq> None
   \<and> Bandwidth (emittedHint True m resource request bm) \<noteq> None
   \<and> Distance (emittedHint True m resource request bm) \<noteq> None
   \<and> Score (emittedHint True m resource request bm) \<noteq> None"
  using calculate_on [of "\<lparr>NUMANodeAffinity = Some bm, Preferred = False, HopCount = None,
                  Bandwidth = None, Distance = None, Score = None\<rparr>" bm m resource request]
  by (simp add: emittedHint_def)

lemma fourNode_hints:
  "generateDeviceTopologyHints True fourNodeManager ''gpu'' [''Dev0'', ''Dev1''] [] 2 =
     Inr [enhancedHint [0, 1] True 1 48 30 52,
          enhancedHint [0, 1, 2] False 2 16 50 104,
          enhancedHint [0, 1, 3] False 2 16 50 104,
          enhancedHint [0, 1, 2, 3] False 3 10 70 156]"
  by code_simp

lemma fourNode_hints_off:
  "generateDeviceTopologyHints False fourNodeManager ''gpu'' [''Dev0'', ''Dev1''] [] 2 =
     Inr [plainHint [0, 1] True, plainHint [0, 1, 2] False, plainHint [0, 1, 3] False,
          plainHint [0, 1, 2, 3] False]"
  by code_simp

lemma fourNode_min: "minAffinitySizeSpec fourNodeManager ''gpu'' 2 = 2"
  by code_simp

lemma reuse_hints:
  "generateDeviceTopologyHints False reuseManager ''gpu'' [''Dev0''] [''DevX''] 1 =
     Inr [plainHint [0] True, plainHint [0, 1] False]"
  by code_simp

lemma reuse_emitted:
  "filter (maskEmitted (devicesOf reuseManager ''gpu'') [''Dev0''] [''DevX''] 1)
     (IterateBitMasks (numaNodes reuseManager)) = [{0}, {0, 1}]"
  by code_simp

text \<open>
  The fields that \<^verbatim>\<open>calculateEnhancedTopologyFields\<close> sets for a non-empty mask: the hop
  count, distance and bandwidth of the spec, and the spec's score formula applied to the
  count of node matches that the code computes (when that count is positive).
\<close>

lemma decoration_formula:
  assumes aff: "NUMANodeAffinity hint = Some bm" and fin: "finite bm" and ne: "bm \<noteq> {}"
  shows "HopCount (calculateEnhancedTopologyFields True m hint resource k) = Some (Count bm - 1)"
    and "Distance (calculateEnhancedTopologyFields True m hint resource k)
           = Some (if Count bm = 1 then 10 else 10 + 20 * (Count bm - 1))"
    and "Bandwidth (calculateEnhancedTopologyFields True m hint resource k)
           = Some (Finite (max 10 (80 * (1 - 0.4 * of_int (Count bm - 1)))))"
    and "0 < countAvailableDevices (devicesOf m resource) (GetBits bm) \<Longrightarrow>
         Score (calculateEnhancedTopologyFields True m hint resource k)
           = Some (Finite (specDeviceScore (if Count bm = 1 then 10 else 10 + 20 * (Count bm - 1))
                             (Count bm - 1) k
                             (countAvailableDevices (devicesOf m resource) (GetBits bm))))"
proof -
  have len: "length (GetBits bm) = card bm" by (simp add: GetBits_def)
  have pos: "0 < card bm" using fin ne by (simp add: card_gt_0_iff)
  have bits: "GetBits bm \<noteq> []" using len pos by auto
  show "HopCount (calculateEnhancedTopologyFields True m hint resource k) = Some (Count bm - 1)"
    using aff pos bits
    by (simp add: calculateEnhancedTopologyFields_def Let_def SetEnhancedFields_def len Count_def)
  show "Distance (calculateEnhancedTopologyFields True m hint resource k)
           = Some (if Count bm = 1 then 10 else 10 + 20 * (Count bm - 1))"
    using aff pos bits
    by (simp add: calculateEnhancedTopologyFields_def Let_def SetEnhancedFields_def len Count_def)
  show "Bandwidth (calculateEnhancedTopologyFields True m hint resource k)
           = Some (Finite (max 10 (80 * (1 - 0.4 * of_int (Count bm - 1)))))"
    using aff pos bits
    by (simp add: calculateEnhancedTopologyFields_def Let_def SetEnhancedFields_def len Count_def
        float64_of_int_def fsub_def max_def)
  show "Score (calculateEnhancedTopologyFields True m hint resource k)
           = Some (Finite (specDeviceScore (if Count bm = 1 then 10 else 10 + 20 * (Count bm - 1))
                             (Count bm - 1) k
                             (countAvailableDevices (devicesOf m resource) (GetBits bm))))"
    if "0 < countAvailableDevices (devicesOf m resource) (GetBits bm)"
    using aff pos bits that
    by (simp add: calculateEnhancedTopologyFields_def Let_def SetEnhancedFields_def len Count_def
        float64_of_int_def fsub_def fgt_def max_def min_def specDeviceScore_def field_simps)
qed

section \<open>Properties of the mergers and of the distributed policy\<close>

lemma candidateLess_total:
  "NUMANodeAffinity a \<noteq> None \<Longrightarrow> NUMANodeAffinity b \<noteq> None \<Longrightarrow>
     \<exists>r. candidateLess en narrower flag a b = Inr r"
  using LessThan_total [of a b en narrower] by (simp add: candidateLess_def)

lemma selectBest_total:
  assumes cmp: "\<And>a b. NUMANodeAffinity a \<noteq> None \<Longrightarrow> NUMANodeAffinity b \<noteq> None \<Longrightarrow>
                  \<exists>r. cmp a b = Inr r"
  shows "NUMANodeAffinity best \<noteq> None \<Longrightarrow> \<forall>c \<in> set cs. NUMANodeAffinity c \<noteq> None \<Longrightarrow>
           \<exists>h. selectBest cmp best cs = Inr h \<and> NUMANodeAffinity h \<noteq> None"
proof (induction cs arbitrary: best)
  case Nil
  then show ?case by simp
next
  case (Cons c cs)
  then obtain r where r: "cmp c best = Inr r"
    using cmp [of c best] by auto
  have "NUMANodeAffinity (if r then c else best) \<noteq> None"
    using Cons.prems by simp
  from Cons.IH [OF this] Cons.prems r show ?case by simp
qed

lemma mergePermutation_affinity:
  "\<exists>y. NUMANodeAffinity (mergePermutation d k p) = Some y"
  "\<exists>y. NUMANodeAffinity (mergeEnhancedPermutation d k p) = Some y"
  by (simp_all add: mergePermutation_def mergeEnhancedPermutation_def Let_def)

lemma HintMerger_Merge_total:
  "\<exists>h. HintMerger_Merge en narrower numaInfo hints = Inr h \<and> NUMANodeAffinity h \<noteq> None"
  unfolding HintMerger_Merge_def Let_def
  by (rule selectBest_total) (auto simp: LessThan_total seedHint_def mergePermutation_affinity)

lemma EnhancedHintMerger_Merge_total:
  "\<exists>h. EnhancedHintMerger_Merge en narrower merger = Inr h \<and> NUMANodeAffinity h \<noteq> None"
  unfolding EnhancedHintMerger_Merge_def Let_def
  by (rule selectBest_total) (auto simp: candidateLess_total seedHint_def mergePermutation_affinity)

lemma fadd_zero: "fadd x (Finite 0) = x"
  by (cases x) simp_all

lemma collect_hintCount:
  "hintCount (foldl (collectHint en) totals hs)
     = hintCount totals + int (length (filter (\<lambda>h. NUMANodeAffinity h \<noteq> None) hs))"
  by (induction hs arbitrary: totals) (simp_all add: collectHint_def Let_def)

lemma collect_allPreferred:
  "allPreferred (foldl (collectHint en) totals hs)
     = (allPreferred totals \<and> list_all Preferred (filter (\<lambda>h. NUMANodeAffinity h \<noteq> None) hs))"
  by (induction hs arbitrary: totals) (auto simp: collectHint_def Let_def)

lemma collect_totalScore:
  "totalScore (foldl (collectHint True) totals hs)
     = foldl fadd (totalScore totals)
         (map (GetScore True) (filter (\<lambda>h. NUMANodeAffinity h \<noteq> None) hs))"
proof (induction hs arbitrary: totals)
  case Nil
  then show ?case by simp
next
  case (Cons h hs)
  have "totalScore (collectHint True totals h)
      = (if NUMANodeAffinity h \<noteq> None then fadd (totalScore totals) (GetScore True h)
         else totalScore totals)"
    by (auto simp: collectHint_def Let_def GetScore_def hasEnhancedFields_def fadd_zero)
  with Cons.IH [of "collectHint True totals h"] show ?case by simp
qed

lemma Merge_admits:
  "\<exists>h. Merge en narrower numaInfo providersHints = Inr (h, True)"
proof (cases en)
  case False
  obtain h where "HintMerger_Merge en narrower numaInfo
      (filterProvidersHints (DefaultAffinityMask numaInfo) providersHints) = Inr h"
    and "NUMANodeAffinity h \<noteq> None"
    using HintMerger_Merge_total by blast
  with False show ?thesis by (simp add: Merge_def Let_def)
next
  case en: True
  show ?thesis
  proof (cases "hasMultipleResourceTypes providersHints")
    case False
    obtain h where "EnhancedHintMerger_Merge en narrower
        (NewEnhancedHintMerger numaInfo (DefaultAffinityMask numaInfo) providersHints) = Inr h"
      and "NUMANodeAffinity h \<noteq> None"
      using EnhancedHintMerger_Merge_total by blast
    with en False show ?thesis by (simp add: Merge_def Let_def canAdmitPodResult_def)
  next
    case True
    let ?merger = "SetDistributedMerging
        (NewEnhancedHintMerger numaInfo (DefaultAffinityMask numaInfo) providersHints) True"
    obtain base where base: "EnhancedHintMerger_Merge en narrower ?merger = Inr base"
      and nb: "NUMANodeAffinity base \<noteq> None"
      using EnhancedHintMerger_Merge_total by blast
    have dh: "NUMANodeAffinity (createDistributedHint en numaInfo providersHints) \<noteq> None"
      by (simp add: createDistributedHint_def Let_def)
    have "\<exists>h. applyDistributionLogic en narrower numaInfo ?merger providersHints = Inr h
        \<and> NUMANodeAffinity h \<noteq> None"
      unfolding applyDistributionLogic_def Let_def using base nb dh by auto
    then obtain h
      where "applyDistributionLogic en narrower numaInfo ?merger providersHints = Inr h"
        and "NUMANodeAffinity h \<noteq> None"
      by blast
    with en True show ?thesis by (simp add: Merge_def Let_def canAdmitPodResult_def)
  qed
qed

lemma Count_DefaultAffinityMask:
  "distinct (Nodes numaInfo) \<Longrightarrow> Count (DefaultAffinityMask numaInfo) = int (length (Nodes numaInfo))"
  by (simp add: Count_def DefaultAffinityMask_def distinct_card)

lemma Merge_distributed:
  assumes "hasMultipleResourceTypes providersHints"
    and "1 < length (Nodes numaInfo)" and "distinct (Nodes numaInfo)"
  shows "Merge True narrower numaInfo providersHints
           = Inr (createDistributedHint True numaInfo providersHints, True)"
proof -
  let ?merger = "SetDistributedMerging
      (NewEnhancedHintMerger numaInfo (DefaultAffinityMask numaInfo) providersHints) True"
  obtain base where base: "EnhancedHintMerger_Merge True narrower ?merger = Inr base"
    using EnhancedHintMerger_Merge_total by blast
  have aff: "NUMANodeAffinity (createDistributedHint True numaInfo providersHints)
      = Some (DefaultAffinityMask numaInfo)"
    by (simp add: createDistributedHint_def Let_def)
  have "applyDistributionLogic True narrower numaInfo ?merger providersHints
      = Inr (createDistributedHint True numaInfo providersHints)"
    using base assms(2) aff Count_DefaultAffinityMask [OF assms(3)]
    by (simp add: applyDistributionLogic_def Let_def)
  with assms(1) aff show ?thesis
    by (simp add: Merge_def Let_def canAdmitPodResult_def)
qed

lemma createDistributedHint_fields:
  "NUMANodeAffinity (createDistributedHint True numaInfo providersHints)
     = Some (DefaultAffinityMask numaInfo)"
  "Preferred (createDistributedHint True numaInfo providersHints)
     = list_all Preferred (hintsWithAffinity providersHints)"
  "Score (createDistributedHint True numaInfo providersHints)
     = (if hintsWithAffinity providersHints = [] then None
        else Some (fadd (fdiv (foldl fadd (Finite 0)
                                 (map (GetScore True) (hintsWithAffinity providersHints)))
                              (float64_of_int (int (length (hintsWithAffinity providersHints)))))
                        (fmul (float64_of_int (Count (DefaultAffinityMask numaInfo) - 1))
                              (Finite 5))))"
  by (simp_all add: createDistributedHint_def Let_def collect_hintCount collect_allPreferred
      collect_totalScore hintsWithAffinity_def)

section \<open>The claims\<close>

text \<open>
  C1. The claim: \<^verbatim>\<open>LessThan\<close>, \<^verbatim>\<open>IsEqual\<close> and \<^verbatim>\<open>distributedPolicy.Merge\<close> complete
  without a panic on every hint, also on hints with a nil affinity. \<^verbatim>\<open>LessThan\<close> does
  not: on two hints of equal \<^verbatim>\<open>Preferred\<close> whose receiver has a nil affinity it calls
  \<^verbatim>\<open>IsNarrowerThan\<close> on the nil interface value and panics, whatever the feature gate
  and the mask order are.
\<close>

theorem LessThan_nil_affinity_panics:
  "LessThan enabled narrower dontCareHint dontCareHint = Inl NilPointerDereference"
  by (simp add: LessThan_def dontCareHint_def)

text \<open>
  C2, as the claim states it, fails: when no input hint has an affinity the returned
  hint has no score at all (\<^verbatim>\<open>hintCount\<close> is 0 and the enhanced fields are not set),
  also when the input hints carry scores. Here the two hints carry the scores 50 and 70,
  whose average plus the penalty of 5 would be 65.
\<close>

theorem distributed_merge_score_counterexample:
  "Merge True (\<subset>) twoNodeInfo
     [[(''resource1'', [dontCareScoredHint 50])], [(''resource2'', [dontCareScoredHint 70])]]
   = Inr (\<lparr>NUMANodeAffinity = Some {0, 1}, Preferred = True, HopCount = None,
           Bandwidth = None, Distance = None, Score = None\<rparr>, True)"
  using Merge_distributed [of "[[(''resource1'', [dontCareScoredHint 50])],
      [(''resource2'', [dontCareScoredHint 70])]]" twoNodeInfo "(\<subset>)"]
  by (simp add: hasMultipleResourceTypes_def twoNodeInfo_def createDistributedHint_def Let_def
      hintsOf_def dontCareScoredHint_def collectHint_def DefaultAffinityMask_def)

text \<open>
  C2, amended: for an input that names at least two resource types, with the feature
  gate on and a \<^verbatim>\<open>NUMAInfo\<close> of more than one node (the node ids distinct), \<^verbatim>\<open>Merge\<close>
  returns the admit flag true and a hint whose affinity is the default mask and whose
  \<^verbatim>\<open>Preferred\<close> is the conjunction of \<^verbatim>\<open>Preferred\<close> over the input hints with an
  affinity. If at least one input hint has an affinity, its score is the sum of
  \<^verbatim>\<open>GetScore\<close> over the input hints with an affinity (0 for a hint without score)
  divided by their number, plus 5 for every NUMA node beyond the first; otherwise the
  score is absent.
\<close>

theorem distributed_merge_multiple_resources:
  assumes "hasMultipleResourceTypes providersHints"
    and "1 < length (Nodes numaInfo)" and "distinct (Nodes numaInfo)"
  shows "\<exists>h. Merge True narrower numaInfo providersHints = Inr (h, True)
     \<and> NUMANodeAffinity h = Some (DefaultAffinityMask numaInfo)
     \<and> Preferred h = list_all Preferred (hintsWithAffinity providersHints)
     \<and> Score h =
         (if hintsWithAffinity providersHints = [] then None
          else Some (fadd (fdiv (foldl fadd (Finite 0)
                                   (map (GetScore True) (hintsWithAffinity providersHints)))
                                (float64_of_int (int (length (hintsWithAffinity providersHints)))))
                          (Finite (5 * (real (length (Nodes numaInfo)) - 1)))))"
proof -
  have "fmul (float64_of_int (Count (DefaultAffinityMask numaInfo) - 1)) (Finite 5)
      = Finite (5 * (real (length (Nodes numaInfo)) - 1))"
    using Count_DefaultAffinityMask [OF assms(3)] by (simp add: float64_of_int_def)
  with Merge_distributed [OF assms, of narrower]
    createDistributedHint_fields [of numaInfo providersHints]
  show ?thesis by simp
qed

theorem distributed_merge_multiple_resources_witness:
  "\<exists>h. Merge True (\<subset>) twoNodeInfo
          [[(''resource1'', [enhancedHint [0] True 1 100 20 50])],
           [(''resource2'', [enhancedHint [1] True 2 80 30 70])]] = Inr (h, True)
     \<and> NUMANodeAffinity h = Some {0, 1} \<and> Preferred h \<and> Score h = Some (Finite 65)"
  using distributed_merge_multiple_resources [of
      "[[(''resource1'', [enhancedHint [0] True 1 100 20 50])],
        [(''resource2'', [enhancedHint [1] True 2 80 30 70])]]" twoNodeInfo "(\<subset>)"]
  by (simp add: hasMultipleResourceTypes_def twoNodeInfo_def hintsWithAffinity_def hintsOf_def
      enhancedHint_def DefaultAffinityMask_def GetScore_def float64_of_int_def)

text \<open>
  C3. The claim: the score of a generated hint uses \<open>utilization = min(1, k / devices_in_mask)\<close>
  with every device whose topology intersects the mask counted once. The code counts, for
  every device, each of its node ids that lies in the mask: a device on nodes 0 and 1
  counts twice for the mask \<open>{0, 1}\<close>. With one such device and a request of 1 the score
  is 47, where the count of devices (1, as \<^verbatim>\<open>devicesInMask\<close> computes it in the
  generator) gives 52.
\<close>

theorem device_score_counts_node_matches:
  "devicesInMask (devicesOf spannedDeviceManager ''gpu'') {0, 1} = 1
   \<and> countAvailableDevices (devicesOf spannedDeviceManager ''gpu'') (GetBits {0, 1}) = 2
   \<and> calculateEnhancedTopologyFields True spannedDeviceManager (plainHint [0, 1] False) ''gpu'' 1
       = enhancedHint [0, 1] False 1 48 30 47
   \<and> specDeviceScore 30 1 1 (devicesInMask (devicesOf spannedDeviceManager ''gpu'') {0, 1}) = 52"
  by code_simp

text \<open>
  C4. Every hint returned by \<^verbatim>\<open>generateDeviceTopologyHints\<close> is preferred if and only
  if the bit count of its mask equals the minimal affinity size: the least bit count of
  an enumerated mask whose devices reach the request, starting from the number of NUMA
  nodes. The generator returns whenever the available and reusable ids are devices of
  the resource.
\<close>

theorem preferred_iff_min_affinity_size:
  "(set available \<subseteq> fst ` set (devicesOf m resource)
      \<and> set reusable \<subseteq> fst ` set (devicesOf m resource)
    \<longrightarrow> (\<exists>hints. generateDeviceTopologyHints enabled m resource available reusable request
                    = Inr hints))
   \<and> (\<forall>hints. generateDeviceTopologyHints enabled m resource available reusable request
                  = Inr hints
        \<longrightarrow> (\<forall>h \<in> set hints. \<exists>bm. NUMANodeAffinity h = Some bm
               \<and> (Preferred h \<longleftrightarrow> Count bm = minAffinitySizeSpec m resource request)))"
proof (intro conjI impI allI ballI)
  assume "set available \<subseteq> fst ` set (devicesOf m resource)
      \<and> set reusable \<subseteq> fst ` set (devicesOf m resource)"
  then show "\<exists>hints. generateDeviceTopologyHints enabled m resource available reusable request
      = Inr hints"
    using generate_known by blast
next
  fix hints h
  assume g: "generateDeviceTopologyHints enabled m resource available reusable request = Inr hints"
    and h: "h \<in> set hints"
  from generate_Inr [OF g] h obtain bm
    where "h = markHint (minAffinitySizeSpec m resource request)
                 (emittedHint enabled m resource request bm)"
    by auto
  then show "\<exists>bm. NUMANodeAffinity h = Some bm
      \<and> (Preferred h \<longleftrightarrow> Count bm = minAffinitySizeSpec m resource request)"
    by (simp add: markHint_fields emittedHint_affinity)
qed

theorem preferred_iff_min_affinity_size_witness:
  "(\<exists>hints. generateDeviceTopologyHints True fourNodeManager ''gpu'' [''Dev0'', ''Dev1''] [] 2
              = Inr hints)
   \<and> Preferred (enhancedHint [0, 1] True 1 48 30 52)
       = (Count {0, 1} = minAffinitySizeSpec fourNodeManager ''gpu'' 2)
   \<and> Preferred (enhancedHint [0, 1, 2] False 2 16 50 104)
       = (Count {0, 1, 2} = minAffinitySizeSpec fourNodeManager ''gpu'' 2)"
  using preferred_iff_min_affinity_size [where m = fourNodeManager and resource = "''gpu''"
      and available = "[''Dev0'', ''Dev1'']" and reusable = "[]" and enabled = True
      and request = 2]
    fourNode_hints
  by (auto simp: enhancedHint_def)

text \<open>
  C5. Backward compatibility of the admission decision: on an input in which no hint
  carries an enhanced field, \<^verbatim>\<open>Merge\<close> with the feature gate off and \<^verbatim>\<open>Merge\<close> with the
  gate on both return, with the same admission flag (both admit).
\<close>

theorem admission_independent_of_gate:
  assumes "\<forall>h \<in> set (hintsOf providersHints). \<not> hasEnhancedFields h"
  shows "\<exists>h1 h2 admit. Merge False narrower numaInfo providersHints = Inr (h1, admit)
           \<and> Merge True narrower numaInfo providersHints = Inr (h2, admit) \<and> admit"
  using Merge_admits [of False narrower numaInfo providersHints]
    Merge_admits [of True narrower numaInfo providersHints]
  by blast

theorem admission_independent_of_gate_witness:
  "\<exists>h1 h2 admit.
     Merge False (\<subset>) twoNodeInfo
       [[(''resource1'', [plainHint [0] True])], [(''resource2'', [plainHint [1] True])]]
       = Inr (h1, admit)
     \<and> Merge True (\<subset>) twoNodeInfo
         [[(''resource1'', [plainHint [0] True])], [(''resource2'', [plainHint [1] True])]]
         = Inr (h2, admit)
     \<and> admit"
  using admission_independent_of_gate [of
      "[[(''resource1'', [plainHint [0] True])], [(''resource2'', [plainHint [1] True])]]"
      "(\<subset>)" twoNodeInfo]
  by (simp add: hintsOf_def plainHint_def hasEnhancedFields_def)

text \<open>
  C6. Antisymmetry of the hint ordering: for two hints with affinities, under either
  state of the feature gate, both comparisons return and they are not both true. The
  order of the masks is the parameter \<open>narrower\<close>, which the spec introduces as a total
  order; its asymmetry is what the property of \<^verbatim>\<open>LessThan\<close> rests on.
\<close>

theorem LessThan_antisymmetric:
  assumes "\<forall>x y. narrower x y \<longrightarrow> \<not> narrower y x"
    and "NUMANodeAffinity a \<noteq> None" and "NUMANodeAffinity b \<noteq> None"
  shows "\<exists>r s. LessThan enabled narrower a b = Inr r \<and> LessThan enabled narrower b a = Inr s
           \<and> \<not> (r \<and> s)"
proof -
  obtain r where r: "LessThan enabled narrower a b = Inr r"
    using LessThan_total [OF assms(2) assms(3)] by blast
  obtain s where s: "LessThan enabled narrower b a = Inr s"
    using LessThan_total [OF assms(3) assms(2)] by blast
  have "\<not> (r \<and> s)"
  proof
    assume "r \<and> s"
    with r s have "LessThan enabled narrower a b = Inr True"
      and "LessThan enabled narrower b a = Inr True" by simp_all
    with LessThan_asym [of narrower enabled a b] assms(1) show False by blast
  qed
  with r s show ?thesis by blast
qed

theorem LessThan_antisymmetric_witness:
  "\<exists>r s. LessThan True (\<subset>) (enhancedHint [0] True 0 80 10 0) (enhancedHint [0, 1] True 1 48 30 47) = Inr r
     \<and> LessThan True (\<subset>) (enhancedHint [0, 1] True 1 48 30 47) (enhancedHint [0] True 0 80 10 0) = Inr s
     \<and> \<not> (r \<and> s)"
  using LessThan_antisymmetric [of "(\<subset>)" "enhancedHint [0] True 0 80 10 0"
      "enhancedHint [0, 1] True 1 48 30 47" True]
  by (simp add: enhancedHint_def psubset_eq) blast

text \<open>
  C7. With the feature gate off, \<^verbatim>\<open>SetEnhancedFields\<close> leaves the hint unchanged,
  \<^verbatim>\<open>CreateEnhancedHint\<close> returns a hint without enhanced fields and no hint of the device
  generator carries an enhanced field; with the gate on, every generated hint with an
  affinity carries all four.
\<close>

theorem enhanced_fields_follow_gate:
  "SetEnhancedFields False th hopCount bandwidth distance score = th
   \<and> \<not> hasEnhancedFields (CreateEnhancedHint False numaAffinity preferred hops bw dst dataSize)
   \<and> (\<forall>hints. generateDeviceTopologyHints False m resource available reusable request = Inr hints
        \<longrightarrow> (\<forall>h \<in> set hints. HopCount h = None \<and> Bandwidth h = None \<and> Distance h = None
               \<and> Score h = None))
   \<and> (\<forall>hints. generateDeviceTopologyHints True m resource available reusable request = Inr hints
        \<longrightarrow> (\<forall>h \<in> set hints. NUMANodeAffinity h \<noteq> None
               \<longrightarrow> HopCount h \<noteq> None \<and> Bandwidth h \<noteq> None \<and> Distance h \<noteq> None
                   \<and> Score h \<noteq> None))"
proof -
  have set_off: "SetEnhancedFields False th hopCount bandwidth distance score = th"
    by (simp add: SetEnhancedFields_def)
  have create_off:
    "\<not> hasEnhancedFields (CreateEnhancedHint False numaAffinity preferred hops bw dst dataSize)"
    by (simp add: CreateEnhancedHint_def hasEnhancedFields_def)
  have gen_off: "HopCount h = None \<and> Bandwidth h = None \<and> Distance h = None \<and> Score h = None"
    if g: "generateDeviceTopologyHints False m resource available reusable request = Inr hints"
      and h: "h \<in> set hints" for hints h
  proof -
    from generate_Inr [OF g] h obtain bm
      where "h = markHint (minAffinitySizeSpec m resource request)
                   (emittedHint False m resource request bm)"
      by auto
    then show ?thesis
      using emittedHint_off [of m resource request bm]
      by (simp add: markHint_fields hasEnhancedFields_def)
  qed
  have gen_on: "HopCount h \<noteq> None \<and> Bandwidth h \<noteq> None \<and> Distance h \<noteq> None \<and> Score h \<noteq> None"
    if g: "generateDeviceTopologyHints True m resource available reusable request = Inr hints"
      and h: "h \<in> set hints" for hints h
  proof -
    from generate_Inr [OF g] h obtain bm
      where bm: "bm \<in> set (IterateBitMasks (numaNodes m))"
        and "h = markHint (minAffinitySizeSpec m resource request)
                   (emittedHint True m resource request bm)"
      by auto
    then show ?thesis
      using emittedHint_on [of bm m resource request] IterateBitMasks_nonempty [OF bm]
      by (simp add: markHint_fields)
  qed
  from set_off create_off gen_off gen_on show ?thesis by blast
qed

theorem enhanced_fields_follow_gate_witness:
  "SetEnhancedFields False (plainHint [0] True) (Some 1) (Some (Finite 100)) (Some 20)
       (Some (Finite 50)) = plainHint [0] True
   \<and> \<not> hasEnhancedFields (CreateEnhancedHint False (Some {0}) True 1 (Finite 100) 20 0)
   \<and> Score (plainHint [0, 1] True) = None
   \<and> Score (enhancedHint [0, 1] True 1 48 30 52) \<noteq> None"
  using enhanced_fields_follow_gate [where m = fourNodeManager and resource = "''gpu''"
      and available = "[''Dev0'', ''Dev1'']" and reusable = "[]" and request = 2
      and th = "plainHint [0] True" and hopCount = "Some 1" and bandwidth = "Some (Finite 100)"
      and distance = "Some 20" and score = "Some (Finite 50)" and numaAffinity = "Some {0}"
      and preferred = True and hops = 1 and bw = "Finite 100" and dst = 20 and dataSize = 0]
    fourNode_hints fourNode_hints_off
  by (simp add: enhancedHint_def plainHint_def)

text \<open>
  C8. Getter defaults: with the feature gate off or the field absent, \<^verbatim>\<open>GetDistance\<close>
  returns 10, \<^verbatim>\<open>GetHopCount\<close> returns 0, \<^verbatim>\<open>GetBandwidth\<close> and \<^verbatim>\<open>GetScore\<close> return 0.0;
  otherwise each getter returns the stored value.
\<close>

theorem getter_defaults:
  "GetDistance enabled th = (if enabled then (case Distance th of None \<Rightarrow> 10 | Some d \<Rightarrow> d) else 10)
   \<and> GetHopCount enabled th = (if enabled then (case HopCount th of None \<Rightarrow> 0 | Some h \<Rightarrow> h) else 0)
   \<and> GetBandwidth enabled th =
       (if enabled then (case Bandwidth th of None \<Rightarrow> Finite 0 | Some b \<Rightarrow> b) else Finite 0)
   \<and> GetScore enabled th =
       (if enabled then (case Score th of None \<Rightarrow> Finite 0 | Some s \<Rightarrow> s) else Finite 0)"
  by (simp add: GetDistance_def GetHopCount_def GetBandwidth_def GetScore_def
      split: option.splits)

theorem getter_defaults_witness:
  "GetDistance False (enhancedHint [0, 1] True 1 48 30 47) = 10
   \<and> GetDistance True (enhancedHint [0, 1] True 1 48 30 47) = 30
   \<and> GetDistance True (plainHint [0, 1] True) = 10
   \<and> GetScore True (enhancedHint [0, 1] True 1 48 30 47) = Finite 47
   \<and> GetBandwidth False (enhancedHint [0, 1] True 1 48 30 47) = Finite 0
   \<and> GetHopCount True (enhancedHint [0, 1] True 1 48 30 47) = 1"
  using getter_defaults [of False "enhancedHint [0, 1] True 1 48 30 47"]
    getter_defaults [of True "enhancedHint [0, 1] True 1 48 30 47"]
    getter_defaults [of True "plainHint [0, 1] True"]
  by (simp add: enhancedHint_def plainHint_def)

text \<open>
  C9, as the claim states it, fails: a hint is not equal to itself when its score (or
  its bandwidth) is NaN, because \<^verbatim>\<open>equalFloat64Pointer\<close> compares the two numbers with
  \<^verbatim>\<open>==\<close>.
\<close>

theorem IsEqual_reflexive_counterexample:
  "\<not> IsEqual nanScoreHint nanScoreHint"
  by (simp add: IsEqual_def nanScoreHint_def equalIntPointer_def equalFloat64Pointer_def
      equalAffinity_def mask_IsEqual_def)

text \<open>
  C9, amended: \<^verbatim>\<open>IsEqual\<close> is symmetric on all hints, and reflexive on every hint
  whose bandwidth and score are not NaN, also when every enhanced field or the affinity
  is absent; hints that differ in the presence of a field are unequal, and two absent
  fields are equal.
\<close>

theorem IsEqual_reflexive_symmetric:
  "(Bandwidth h \<noteq> Some NaN \<and> Score h \<noteq> Some NaN \<longrightarrow> IsEqual h h)
   \<and> IsEqual a b = IsEqual b a
   \<and> (IsEqual a b \<longrightarrow>
        (HopCount a = None) = (HopCount b = None)
        \<and> (Bandwidth a = None) = (Bandwidth b = None)
        \<and> (Distance a = None) = (Distance b = None)
        \<and> (Score a = None) = (Score b = None)
        \<and> (NUMANodeAffinity a = None) = (NUMANodeAffinity b = None))
   \<and> equalIntPointer None None \<and> equalFloat64Pointer None None \<and> equalAffinity None None"
  using IsEqual_refl [of h] IsEqual_sym [of a b] IsEqual_fields [of a b]
  by (simp add: equalIntPointer_def equalFloat64Pointer_def equalAffinity_def)

theorem IsEqual_reflexive_symmetric_witness:
  "IsEqual dontCareHint dontCareHint
   \<and> IsEqual (plainHint [0] True) (enhancedHint [0] True 1 100 10 50)
       = IsEqual (enhancedHint [0] True 1 100 10 50) (plainHint [0] True)
   \<and> \<not> IsEqual (plainHint [0] True) (enhancedHint [0] True 1 100 10 50)"
  using IsEqual_reflexive_symmetric [of dontCareHint "plainHint [0] True"
      "enhancedHint [0] True 1 100 10 50"]
  by (auto simp: dontCareHint_def plainHint_def enhancedHint_def)

text \<open>
  C10. The masks of the returned hints are, in the order of the enumeration, exactly the
  masks that every topology-declaring reusable device touches and for which the number
  of topology-declaring reusable devices plus the number of available devices touching
  the mask reaches the request; a reusable device with a nil \<^verbatim>\<open>Topology\<close> changes
  neither condition.
\<close>

theorem mask_emitted_iff:
  "(\<forall>hints. generateDeviceTopologyHints enabled m resource available reusable request = Inr hints
      \<longrightarrow> map NUMANodeAffinity hints
            = map Some (filter (maskEmitted (devicesOf m resource) available reusable request)
                          (IterateBitMasks (numaNodes m))))
   \<and> (\<forall>device. map_of devices d = Some device \<and> Topology device = None
        \<longrightarrow> maskEmitted devices available (d # reusable) request bm
              = maskEmitted devices available reusable request bm)"
proof (intro conjI impI allI)
  fix hints
  assume g: "generateDeviceTopologyHints enabled m resource available reusable request = Inr hints"
  show "map NUMANodeAffinity hints
      = map Some (filter (maskEmitted (devicesOf m resource) available reusable request)
                    (IterateBitMasks (numaNodes m)))"
    unfolding generate_Inr [OF g]
    by (simp add: o_def markHint_fields emittedHint_affinity)
next
  fix device
  assume "map_of devices d = Some device \<and> Topology device = None"
  then show "maskEmitted devices available (d # reusable) request bm
      = maskEmitted devices available reusable request bm"
    by (simp add: maskEmitted_def declaresTopology_Some)
qed

theorem mask_emitted_iff_witness:
  "(\<exists>hints. generateDeviceTopologyHints False reuseManager ''gpu'' [''Dev0''] [''DevX''] 1
              = Inr hints
            \<and> map NUMANodeAffinity hints = [Some {0}, Some {0, 1}])
   \<and> maskEmitted (devicesOf reuseManager ''gpu'') [''Dev0''] [''DevX''] 1 {1}
       = maskEmitted (devicesOf reuseManager ''gpu'') [''Dev0''] [] 1 {1}"
  using mask_emitted_iff [where m = reuseManager and resource = "''gpu''"
      and available = "[''Dev0'']" and reusable = "[''DevX'']" and enabled = False
      and request = 1]
    mask_emitted_iff [where devices = "devicesOf reuseManager ''gpu''" and d = "''DevX''"
      and available = "[''Dev0'']" and reusable = "[]" and request = 1 and bm = "{1}"]
    reuse_hints reuse_emitted
  by (simp add: reuseManager_def devicesOf_def)

end
